theory Spec2Isabelle
  imports Complex_Main "HOL-Library.AList" "HOL-Library.Product_Lexorder"
begin

section \<open>Workers (models/Worker.ts)\<close>

text \<open>
  A JavaScript number that counts something (jobs, priorities) is an \<open>int\<close>; a number that
  is an average or a rate is a \<open>rat\<close>, so that the arithmetic of the model is exact.
  Only the fields of the Worker document that the methods and queries below read or write
  are kept.
\<close>

datatype worker_status = Online | Offline | Busy | Maintenance | WError

record worker =
  worker_identifier :: string
  wname :: string
  ip :: string
  wstatus :: worker_status
  maxConcurrentJobs :: int
  currentJobs :: int
  totalJobsProcessed :: int
  successRate :: rat
  averageJobDuration :: rat
  priorityFilter_min :: int
  priorityFilter_max :: int

text \<open>
  \<^verbatim>\<open>assignJob\<close>: the counter goes up by one, with no test before; the status becomes
  busy once the counter has reached the capacity.
\<close>

definition assignJob :: "worker \<Rightarrow> worker" where
  "assignJob w =
     (let w1 = w\<lparr>currentJobs := currentJobs w + 1\<rparr>
      in if currentJobs w1 \<ge> maxConcurrentJobs w1 then w1\<lparr>wstatus := Busy\<rparr> else w1)"

text \<open>
  \<^verbatim>\<open>completeJob(success = true, duration = 0)\<close>: \<^verbatim>\<open>Math.max(0, currentJobs - 1)\<close>, then the
  two running averages, then the status.
\<close>

definition completeJob :: "bool \<Rightarrow> rat \<Rightarrow> worker \<Rightarrow> worker" where
  "completeJob success duration w =
     (let w1 = w\<lparr>currentJobs := max 0 (currentJobs w - 1)\<rparr>;
          w2 = w1\<lparr>totalJobsProcessed := totalJobsProcessed w1 + 1\<rparr>;
          totalJobs = totalJobsProcessed w2;
          currentSuccessRate = successRate w2;
          newSuccessCount = currentSuccessRate * (of_int totalJobs - 1) + (if success then 1 else 0);
          w3 = w2\<lparr>successRate := newSuccessCount / of_int totalJobs\<rparr>;
          currentAvg = averageJobDuration w3;
          w4 = w3\<lparr>averageJobDuration :=
                 (currentAvg * (of_int totalJobs - 1) + duration) / of_int totalJobs\<rparr>
      in if currentJobs w4 < maxConcurrentJobs w4 then w4\<lparr>wstatus := Online\<rparr> else w4)"

text \<open>A sequence of assignment and completion events on one worker.\<close>

datatype worker_event = Assign | Complete bool rat

fun apply_event :: "worker \<Rightarrow> worker_event \<Rightarrow> worker" where
  "apply_event w Assign = assignJob w"
| "apply_event w (Complete success duration) = completeJob success duration w"



text \<open>A worker as registration leaves it: no job running, nothing processed.\<close>

definition registered :: "string \<Rightarrow> int \<Rightarrow> worker" where
  "registered wid cap =
     \<lparr>worker_identifier = wid, wname = wid, ip = ''10.0.0.1'', wstatus = Offline,
      maxConcurrentJobs = cap, currentJobs = 0, totalJobsProcessed = 0, successRate = 0,
      averageJobDuration = 0, priorityFilter_min = 1, priorityFilter_max = 10\<rparr>"

section \<open>Jobs (models/Job.ts)\<close>

text \<open>
  The Job document. A \<^verbatim>\<open>Date\<close> is its time value in milliseconds; \<^verbatim>\<open>new Date()\<close> is the
  argument \<open>now\<close> of the function that calls it. An optional field is an \<open>option\<close>.
  The results payload is a dictionary.
\<close>

datatype job_type = Single | Batch | Scheduled

datatype job_status = Pending | Queued | Running | Completed | Failed | Cancelled

record log_entry =
  log_timestamp :: int
  log_level :: string
  log_message :: string

record worker_info =
  wi_id :: string
  wi_name :: string
  wi_ip :: string
  wi_assignedAt :: int

record job_schedule =
  sched_recurring :: bool
  sched_startDate :: "int option"

record job =
  job_id :: string
  jname :: string
  description :: "string option"
  url :: string
  jtype :: job_type
  jstatus :: job_status
  priority :: int
  assignedWorker :: "string option"
  workerInfo :: "worker_info option"
  jschedule :: "job_schedule option"
  startTime :: "int option"
  endTime :: "int option"
  duration :: "int option"
  attempts :: int
  lastAttempt :: "int option"
  logs :: "log_entry list"
  results :: "string \<rightharpoonup> string"
  createdBy :: string
  updatedAt :: int
  tags :: "string list"

text \<open>\<^verbatim>\<open>addLog(level, message)\<close> pushes one entry on the execution log.\<close>

definition addLog :: "int \<Rightarrow> string \<Rightarrow> string \<Rightarrow> job \<Rightarrow> job" where
  "addLog now lvl msg j =
     j\<lparr>logs := logs j @ [\<lparr>log_timestamp = now, log_level = lvl, log_message = msg\<rparr>]\<rparr>"

text \<open>
  \<^verbatim>\<open>updateStatus(status, data?)\<close>. The first statement is \<^verbatim>\<open>this.status = status\<close>; the
  current status is not read anywhere in the method. The document that \<^verbatim>\<open>save()\<close> stores is
  the value returned here.
\<close>

definition updateStatus ::
  "int \<Rightarrow> job_status \<Rightarrow> (string \<rightharpoonup> string) option \<Rightarrow> job \<Rightarrow> job" where
  "updateStatus now status data j =
     (let j1 = j\<lparr>jstatus := status, updatedAt := now\<rparr>;
          j2 = (if status = Running then
                  j1\<lparr>startTime := Some now, attempts := attempts j1 + 1, lastAttempt := Some now\<rparr>
                else if status = Completed \<or> status = Failed then
                  (let j' = j1\<lparr>endTime := Some now\<rparr>
                   in case startTime j' of
                        Some st \<Rightarrow> j'\<lparr>duration := Some (now - st)\<rparr>
                      | None \<Rightarrow> j')
                else j1)
      in case data of
           Some d \<Rightarrow> j2\<lparr>results := results j2 ++ d\<rparr>
         | None \<Rightarrow> j2)"

text \<open>
  The transition graph as the specification words it: pending to queued, queued to
  running, running to completed or failed, pending, queued or running to cancelled, failed
  to pending.
\<close>

definition spec_transition :: "job_status \<Rightarrow> job_status \<Rightarrow> bool" where
  "spec_transition a b =
     ((a = Pending \<and> b = Queued) \<or> (a = Queued \<and> b = Running) \<or>
      (a = Running \<and> (b = Completed \<or> b = Failed)) \<or>
      ((a = Pending \<or> a = Queued \<or> a = Running) \<and> b = Cancelled) \<or>
      (a = Failed \<and> b = Pending))"

text \<open>A job document as \<^verbatim>\<open>new Job({...})\<close> of createJob builds it, for the examples.\<close>

definition sample_job :: "string \<Rightarrow> job_type \<Rightarrow> job_status \<Rightarrow> int \<Rightarrow> job" where
  "sample_job i t st p =
     \<lparr>job_id = i, jname = ''Test'', description = None, url = ''https://example.com'',
      jtype = t, jstatus = st, priority = p, assignedWorker = None, workerInfo = None, jschedule = None,
      startTime = None, endTime = None, duration = None, attempts = 0, lastAttempt = None,
      logs = [], results = Map.empty, createdBy = ''system'', updatedAt = 0, tags = []\<rparr>"

section \<open>JavaScript helpers\<close>

text \<open>
  A string is the list of its code units. The type \<open>char\<close> has the code units 0 to 255,
  so the strings of the model are those of JavaScript whose code units are all below 256,
  and \<open>length\<close> is \<^verbatim>\<open>.length\<close> on them.
\<close>

text \<open>\<^verbatim>\<open>Number.prototype.toString()\<close> on an integer: decimal digits, a minus sign when negative.\<close>

definition digit_char :: "nat \<Rightarrow> char" where
  "digit_char d = ''0123456789'' ! d"

fun digits_of_nat :: "nat \<Rightarrow> string" where
  "digits_of_nat n =
     (if n < 10 then [digit_char n] else digits_of_nat (n div 10) @ [digit_char (n mod 10)])"

declare digits_of_nat.simps [simp del]

definition js_toString :: "int \<Rightarrow> string" where
  "js_toString n = (if n < 0 then CHR ''-'' # digits_of_nat (nat (- n)) else digits_of_nat (nat n))"

text \<open>
  \<^verbatim>\<open>Number(s)\<close> on a string, for decimal integer notation: the empty string is 0, a string
  of digits with an optional sign is its value, and a string with any other character is
  NaN (\<open>None\<close>). The other notations that \<^verbatim>\<open>Number\<close> reads (fractions, exponents,
  hexadecimal, surrounding blanks) occur in no string of this program.
\<close>

definition digit_value :: "char \<Rightarrow> nat option" where
  "digit_value c =
     (if c \<in> set ''0123456789'' then Some (of_char c - of_char CHR ''0'') else None)"

fun nat_of_digits :: "nat \<Rightarrow> string \<Rightarrow> nat option" where
  "nat_of_digits acc [] = Some acc"
| "nat_of_digits acc (c # cs) =
     (case digit_value c of None \<Rightarrow> None | Some d \<Rightarrow> nat_of_digits (10 * acc + d) cs)"

definition js_Number :: "string \<Rightarrow> int option" where
  "js_Number s =
     (case s of
        [] \<Rightarrow> Some 0
      | c # cs \<Rightarrow>
          if c = CHR ''-'' then
            (if cs = [] then None else map_option (\<lambda>n. - int n) (nat_of_digits 0 cs))
          else if c = CHR ''+'' then
            (if cs = [] then None else map_option int (nat_of_digits 0 cs))
          else map_option int (nat_of_digits 0 s))"

text \<open>
  \<^verbatim>\<open>s.replace(pat, rep)\<close> with a string pattern: the first occurrence of \<open>pat\<close> in \<open>s\<close> is
  replaced, the rest of \<open>s\<close> is kept; without an occurrence \<open>s\<close> is returned. (The
  replacement strings of this program are decimal numbers, which hold no \<^verbatim>\<open>$\<close>.)
\<close>

fun js_replace :: "string \<Rightarrow> string \<Rightarrow> string \<Rightarrow> string" where
  "js_replace pat rep [] = (if pat = [] then rep else [])"
| "js_replace pat rep (c # cs) =
     (if take (length pat) (c # cs) = pat then rep @ drop (length pat) (c # cs)
      else c # js_replace pat rep cs)"

text \<open>\<^verbatim>\<open>x || d\<close> on an optional string: the empty string is falsy, as \<^verbatim>\<open>undefined\<close> is.\<close>

definition str_or :: "string option \<Rightarrow> string \<Rightarrow> string" where
  "str_or x d = (case x of None \<Rightarrow> d | Some v \<Rightarrow> if v = [] then d else v)"

text \<open>\<^verbatim>\<open>x || d\<close> on an optional number: 0 is falsy, as \<^verbatim>\<open>undefined\<close> is.\<close>

definition num_or :: "int option \<Rightarrow> int \<Rightarrow> int" where
  "num_or x d = (case x of None \<Rightarrow> d | Some v \<Rightarrow> if v = 0 then d else v)"

section \<open>Queries on the Worker collection\<close>

text \<open>
  A filter given to \<^verbatim>\<open>Worker.find\<close> or \<^verbatim>\<open>Worker.findOne\<close> is a list of conditions, each on
  one path of the document, with an operand that is a JavaScript number or string. The
  operand is a value: a filter does not read a string such as
  \<^verbatim>\<open>'$capabilities.maxConcurrentJobs'\<close> as the name of another field. Before the filter is
  run, Mongoose casts every operand to the type that the schema declares for its path
  (\<^verbatim>\<open>Number\<close> for the three numeric paths here, \<^verbatim>\<open>String\<close> for the other two), and the
  query is rejected with a CastError when a cast fails. The cast to a number takes a
  number as it is, the empty string to null, and any other string through \<^verbatim>\<open>Number\<close>,
  failing on NaN.
\<close>

text \<open>
  The errors that the model has: \<^verbatim>\<open>new Error(message)\<close> of the service; the ValidationError
  of \<^verbatim>\<open>save()\<close>, with the paths that fail (the order of the paths in the list has no
  meaning); a CastError, with the type asked for and the value that does not cast; the
  duplicate key error of the collection.
\<close>

datatype error =
  NotFound string | ValidationError "string list" | CastError string string | DuplicateKey string

datatype operand = Num int | Str string | Null

datatype path = P_identifier | P_status | P_currentJobs | P_priorityFilter_min | P_priorityFilter_max

datatype cond = Eq path operand | Lt path operand | Lte path operand | Gte path operand

fun status_name :: "worker_status \<Rightarrow> string" where
  "status_name Online = ''online''"
| "status_name Offline = ''offline''"
| "status_name Busy = ''busy''"
| "status_name Maintenance = ''maintenance''"
| "status_name WError = ''error''"

fun field_of :: "path \<Rightarrow> worker \<Rightarrow> operand" where
  "field_of P_identifier w = Str (worker_identifier w)"
| "field_of P_status w = Str (status_name (wstatus w))"
| "field_of P_currentJobs w = Num (currentJobs w)"
| "field_of P_priorityFilter_min w = Num (priorityFilter_min w)"
| "field_of P_priorityFilter_max w = Num (priorityFilter_max w)"

fun number_path :: "path \<Rightarrow> bool" where
  "number_path P_identifier = False"
| "number_path P_status = False"
| "number_path p = True"

fun cast_operand :: "path \<Rightarrow> operand \<Rightarrow> error + operand" where
  "cast_operand p (Num n) = Inr (if number_path p then Num n else Str (js_toString n))"
| "cast_operand p (Str s) =
     (if number_path p then
        (if s = [] then Inr Null
         else case js_Number s of
                None \<Rightarrow> Inl (CastError ''Number'' s)
              | Some n \<Rightarrow> Inr (Num n))
      else Inr (Str s))"
| "cast_operand p Null = Inr Null"

fun cond_path :: "cond \<Rightarrow> path" where
  "cond_path (Eq p v) = p"
| "cond_path (Lt p v) = p"
| "cond_path (Lte p v) = p"
| "cond_path (Gte p v) = p"

fun cast_cond :: "cond \<Rightarrow> error + cond" where
  "cast_cond (Eq p v) = (case cast_operand p v of Inl e \<Rightarrow> Inl e | Inr v' \<Rightarrow> Inr (Eq p v'))"
| "cast_cond (Lt p v) = (case cast_operand p v of Inl e \<Rightarrow> Inl e | Inr v' \<Rightarrow> Inr (Lt p v'))"
| "cast_cond (Lte p v) = (case cast_operand p v of Inl e \<Rightarrow> Inl e | Inr v' \<Rightarrow> Inr (Lte p v'))"
| "cast_cond (Gte p v) = (case cast_operand p v of Inl e \<Rightarrow> Inl e | Inr v' \<Rightarrow> Inr (Gte p v'))"

fun cast_filter :: "cond list \<Rightarrow> error + cond list" where
  "cast_filter [] = Inr []"
| "cast_filter (c # cs) =
     (case cast_cond c of
        Inl e \<Rightarrow> Inl e
      | Inr c' \<Rightarrow> (case cast_filter cs of Inl e \<Rightarrow> Inl e | Inr cs' \<Rightarrow> Inr (c' # cs')))"

text \<open>
  A comparison holds between two values of the same type only. (After the cast the two
  sides of a condition have the same type, unless the operand is null, which no field of
  a stored worker is; an order on strings is asked by no filter of this program.)
\<close>

fun op_lt :: "operand \<Rightarrow> operand \<Rightarrow> bool" where
  "op_lt (Num a) (Num b) = (a < b)"
| "op_lt _ _ = False"

fun op_le :: "operand \<Rightarrow> operand \<Rightarrow> bool" where
  "op_le (Num a) (Num b) = (a \<le> b)"
| "op_le _ _ = False"

fun matches :: "worker \<Rightarrow> cond \<Rightarrow> bool" where
  "matches w (Eq p v) = (field_of p w = v)"
| "matches w (Lt p v) = op_lt (field_of p w) v"
| "matches w (Lte p v) = op_le (field_of p w) v"
| "matches w (Gte p v) = op_le v (field_of p w)"

definition find_workers :: "cond list \<Rightarrow> worker list \<Rightarrow> error + worker list" where
  "find_workers flt ws =
     (case cast_filter flt of
        Inl e \<Rightarrow> Inl e
      | Inr flt' \<Rightarrow> Inr (filter (\<lambda>w. list_all (matches w) flt') ws))"

definition findOne_worker :: "cond list \<Rightarrow> worker list \<Rightarrow> error + worker option" where
  "findOne_worker flt ws =
     (case find_workers flt ws of
        Inl e \<Rightarrow> Inl e
      | Inr [] \<Rightarrow> Inr None
      | Inr (w # _) \<Rightarrow> Inr (Some w))"

text \<open>
  \<^verbatim>\<open>.sort({'resources.currentJobs': 1, 'resources.successRate': -1,
  'resources.averageJobDuration': 1})\<close>: a stable sort on the triple, the rate negated for
  the descending order.
\<close>

definition assignment_order :: "worker \<Rightarrow> int \<times> rat \<times> rat" where
  "assignment_order w = (currentJobs w, - successRate w, averageJobDuration w)"

section \<open>The job service (services/JobService.ts)\<close>

text \<open>
  The schema of Job declares no path \<^verbatim>\<open>_id\<close> (the \<^verbatim>\<open>_id: string\<close> of \<^verbatim>\<open>IJob\<close> is a type
  annotation only), so Mongoose gives the documents an \<^verbatim>\<open>_id\<close> of type ObjectId and casts
  to ObjectId every value given for it. A string casts when it is 24 hexadecimal digits;
  the ObjectId is then its value, written here in lower case. (Drivers before version 5
  of the BSON library also took any string of 12 characters; no id below has 12.)
\<close>

definition is_hex :: "char \<Rightarrow> bool" where
  "is_hex c = (c \<in> set ''0123456789abcdefABCDEF'')"

definition hex_lower :: "char \<Rightarrow> char" where
  "hex_lower c =
     (if c = CHR ''A'' then CHR ''a'' else if c = CHR ''B'' then CHR ''b''
      else if c = CHR ''C'' then CHR ''c'' else if c = CHR ''D'' then CHR ''d''
      else if c = CHR ''E'' then CHR ''e'' else if c = CHR ''F'' then CHR ''f'' else c)"

definition cast_ObjectId :: "string \<Rightarrow> string option" where
  "cast_ObjectId s = (if length s = 24 \<and> list_all is_hex s then Some (map hex_lower s) else None)"

text \<open>
  \<^verbatim>\<open>nanoid()\<close> returns 21 characters of its alphabet: the letters, the digits, the
  underscore and the hyphen.
\<close>

definition nanoid_value :: "string \<Rightarrow> bool" where
  "nanoid_value s =
     (length s = 21 \<and>
      list_all (\<lambda>c. c \<in> set ''ABCDEFGHIJKLMNOPQRSTUVWXYZabcdefghijklmnopqrstuvwxyz0123456789_-'') s)"

text \<open>
  The two collections; the jobs are kept under their ObjectId. \<^verbatim>\<open>Job.findById(id)\<close> casts
  the id, throws a CastError when it does not cast, and is the lookup otherwise. The queue
  and the publish/subscribe channel of the service are the no-op mocks declared at the top
  of the source file, so the calls to them change nothing and are left out.
\<close>

record store =
  jobs :: "string \<rightharpoonup> job"
  workers :: "worker list"

definition findById :: "string \<Rightarrow> store \<Rightarrow> error + job option" where
  "findById jobId db =
     (case cast_ObjectId jobId of
        None \<Rightarrow> Inl (CastError ''ObjectId'' jobId)
      | Some oid \<Rightarrow> Inr (jobs db oid))"

definition save_worker :: "worker \<Rightarrow> store \<Rightarrow> store" where
  "save_worker w db =
     db\<lparr>workers := map (\<lambda>x. if worker_identifier x = worker_identifier w then w else x) (workers db)\<rparr>"

definition queueJob :: "int \<Rightarrow> string \<Rightarrow> store \<Rightarrow> error + store" where
  "queueJob now jobId db =
     (case findById jobId db of
        Inl e \<Rightarrow> Inl e
      | Inr None \<Rightarrow> Inl (NotFound ''Job not found'')
      | Inr (Some job) \<Rightarrow>
          Inr (db\<lparr>jobs := (jobs db)(job_id job \<mapsto>
                 addLog now ''info'' ''Job queued for execution'' (updateStatus now Queued None job))\<rparr>))"

text \<open>The two filters of \<^verbatim>\<open>assignJobToWorker\<close>, condition by condition as the source lists them.\<close>

definition pinned_filter :: "string \<Rightarrow> cond list" where
  "pinned_filter workerId =
     [Eq P_identifier (Str workerId),
      Eq P_status (Str ''online''),
      Lt P_currentJobs (Str ''$capabilities.maxConcurrentJobs'')]"

definition auto_filter :: "int \<Rightarrow> cond list" where
  "auto_filter prio =
     [Eq P_status (Str ''online''),
      Lt P_currentJobs (Str ''$capabilities.maxConcurrentJobs''),
      Lte P_priorityFilter_min (Num prio),
      Gte P_priorityFilter_max (Num prio)]"

text \<open>
  \<^verbatim>\<open>assignJobToWorker(jobId, workerId?)\<close>. \<^verbatim>\<open>if (workerId)\<close> takes the pinned branch for a
  non-empty string. The result is the worker returned (or null) and the store.
\<close>

definition select_worker :: "job \<Rightarrow> string option \<Rightarrow> worker list \<Rightarrow> error + worker option" where
  "select_worker job workerId ws =
     (if str_or workerId [] \<noteq> [] then findOne_worker (pinned_filter (str_or workerId [])) ws
      else
        (case find_workers (auto_filter (priority job)) ws of
           Inl e \<Rightarrow> Inl e
         | Inr availableWorkers \<Rightarrow>
             (case sort_key assignment_order availableWorkers of
                [] \<Rightarrow> Inr None
              | w # _ \<Rightarrow> Inr (Some w))))"

definition assignJobToWorker ::
  "int \<Rightarrow> string \<Rightarrow> string option \<Rightarrow> store \<Rightarrow> error + (worker option \<times> store)" where
  "assignJobToWorker now jobId workerId db =
     (case findById jobId db of
        Inl e \<Rightarrow> Inl e
      | Inr None \<Rightarrow> Inl (NotFound ''Job not found'')
      | Inr (Some job) \<Rightarrow>
          (case select_worker job workerId (workers db) of
             Inl e \<Rightarrow> Inl e
           | Inr None \<Rightarrow> Inr (None, db)
           | Inr (Some worker) \<Rightarrow>
               (let job1 = job\<lparr>assignedWorker := Some (worker_identifier worker),
                               workerInfo := Some \<lparr>wi_id = worker_identifier worker,
                                                   wi_name = wname worker, wi_ip = ip worker,
                                                   wi_assignedAt = now\<rparr>\<rparr>;
                    worker1 = assignJob worker;
                    job2 = addLog now ''info''
                             (''Job assigned to worker: '' @ wname worker1 @ '' ('' @
                              worker_identifier worker1 @ '')'') job1
                in Inr (Some worker1,
                        save_worker worker1 (db\<lparr>jobs := (jobs db)(job_id job \<mapsto> job2)\<rparr>)))))"

text \<open>
  \<^verbatim>\<open>cancelJob(jobId, reason?)\<close>: false when the job is not found; otherwise the status is
  set, the log written, and the assigned worker (if it is found) released. An id that does
  not cast makes \<^verbatim>\<open>findById\<close> throw, before anything is changed.
\<close>

definition cancelJob :: "int \<Rightarrow> string \<Rightarrow> string option \<Rightarrow> store \<Rightarrow> error + (bool \<times> store)" where
  "cancelJob now jobId reason db =
     (case findById jobId db of
        Inl e \<Rightarrow> Inl e
      | Inr None \<Rightarrow> Inr (False, db)
      | Inr (Some job) \<Rightarrow>
          (let job1 = updateStatus now Cancelled None job;
               job2 = addLog now ''info'' (''Job cancelled: '' @ str_or reason ''No reason provided'') job1;
               db1 = db\<lparr>jobs := (jobs db)(job_id job \<mapsto> job2)\<rparr>
           in if str_or (assignedWorker job2) [] \<noteq> [] then
                (case findOne_worker [Eq P_identifier (Str (str_or (assignedWorker job2) []))] (workers db1) of
                   Inl e \<Rightarrow> Inl e
                 | Inr None \<Rightarrow> Inr (True, db1)
                 | Inr (Some worker) \<Rightarrow> Inr (True, save_worker (completeJob False 0 worker) db1))
              else Inr (True, db1)))"

text \<open>
  \<^verbatim>\<open>DELETE /jobs/{id}?reason=\<close> (app/api/jobs/[id]/route.ts): the HTTP status and the
  message of the response. The \<^verbatim>\<open>catch\<close> of the handler answers 500; the only throw of
  \<^verbatim>\<open>cancelJob\<close> that can happen is the one of \<^verbatim>\<open>findById\<close>, where the store is as before.
\<close>

definition jobs_DELETE :: "int \<Rightarrow> string \<Rightarrow> string option \<Rightarrow> store \<Rightarrow> (nat \<times> string) \<times> store" where
  "jobs_DELETE now jobId reasonParam db =
     (case cancelJob now jobId (Some (str_or reasonParam ''Manual cancellation'')) db of
        Inl e \<Rightarrow> ((500, ''Failed to cancel job''), db)
      | Inr (success, db') \<Rightarrow>
          if \<not> success then ((404, ''Job not found or cannot be cancelled''), db')
          else ((200, ''Job cancelled successfully''), db'))"

section \<open>Job creation\<close>

text \<open>
  The plain object \<^verbatim>\<open>CreateJobData\<close>. A name or url that is \<^verbatim>\<open>undefined\<close> at run time
  (an element read past the end of an empty list) is \<open>None\<close>. The config is left out:
  the fields that \<^verbatim>\<open>JobConfig\<close> declares are on no path of the schema that has a validator,
  and the functions below read the defaults only.
\<close>

record create_job_data =
  cj_name :: "string option"
  cj_description :: "string option"
  cj_url :: "string option"
  cj_type :: "job_type option"
  cj_priority :: "int option"
  cj_schedule :: "job_schedule option"
  cj_createdBy :: string
  cj_tags :: "string list option"
  cj_intent :: "string option"
  cj_fingerprintRegion :: "string option"

text \<open>
  \<^verbatim>\<open>String.prototype.trim\<close>, the setter of the schema option \<^verbatim>\<open>trim: true\<close>. It strips the
  white space and line terminators of JavaScript; those below 256 are the tab, the line
  feed, the vertical tab, the form feed, the carriage return, the space and the no-break
  space.
\<close>

definition is_blank :: "char \<Rightarrow> bool" where
  "is_blank c =
     (c \<in> set [CHR 0x09, CHR 0x0A, CHR 0x0B, CHR 0x0C, CHR 0x0D, CHR 0x20, CHR 0xA0])"

definition js_trim :: "string \<Rightarrow> string" where
  "js_trim s = rev (dropWhile is_blank (rev (dropWhile is_blank s)))"

text \<open>
  The validation that \<^verbatim>\<open>save()\<close> runs on a new Job, path by path in the order of the
  schema: \<^verbatim>\<open>name\<close> is required (after trimming) and at most 255 long; \<^verbatim>\<open>description\<close> is
  at most 1000 long (after trimming); \<^verbatim>\<open>url\<close> is required and must be accepted by
  \<^verbatim>\<open>new URL\<close> (the parameter \<open>valid_url\<close>); \<^verbatim>\<open>priority\<close> has \<^verbatim>\<open>min: 1\<close> and \<^verbatim>\<open>max: 10\<close>,
  which are validators: a value outside is refused, not changed; \<^verbatim>\<open>metadata.createdBy\<close> is
  required. The result is the list of the paths that fail.
\<close>

definition validation_errors :: "(string \<Rightarrow> bool) \<Rightarrow> create_job_data \<Rightarrow> int \<Rightarrow> string list" where
  "validation_errors valid_url jobData prio =
     (case cj_name jobData of
        None \<Rightarrow> [''name'']
      | Some n \<Rightarrow> if js_trim n = [] \<or> length (js_trim n) > 255 then [''name''] else []) @
     (case cj_description jobData of
        None \<Rightarrow> []
      | Some d \<Rightarrow> if length (js_trim d) > 1000 then [''description''] else []) @
     (case cj_url jobData of
        None \<Rightarrow> [''url'']
      | Some v \<Rightarrow> if v = [] \<or> \<not> valid_url v then [''url''] else []) @
     (if prio < 1 \<or> prio > 10 then [''priority''] else []) @
     (if cj_createdBy jobData = [] then [''metadata.createdBy''] else [])"

fun join_paths :: "string list \<Rightarrow> string" where
  "join_paths [] = []"
| "join_paths [x] = x"
| "join_paths (x # y # ys) = x @ '', '' @ join_paths (y # ys)"

text \<open>
  \<^verbatim>\<open>createJob(jobData)\<close>. \<open>new_id\<close> is the value of \<^verbatim>\<open>nanoid()\<close>, given to \<^verbatim>\<open>new Job\<close> as
  \<^verbatim>\<open>_id\<close>. When it does not cast to ObjectId the document has no \<^verbatim>\<open>_id\<close>, and \<^verbatim>\<open>save()\<close>
  reports the path \<^verbatim>\<open>_id\<close> with the paths that fail their validators. A second document
  with an \<^verbatim>\<open>_id\<close> already stored is refused by the collection. The schedule sub-document
  of the schema has no path \<^verbatim>\<open>startDate\<close>, so the document keeps the kind of the schedule
  only. The function returns the document it holds in memory and the store; after
  \<^verbatim>\<open>queueJob\<close>, which works on its own copy of the document, the last \<^verbatim>\<open>addLog\<close> pushes its
  entry on both.
\<close>

definition createJob ::
  "(string \<Rightarrow> bool) \<Rightarrow> string \<Rightarrow> int \<Rightarrow> create_job_data \<Rightarrow> store \<Rightarrow> error + (job \<times> store)" where
  "createJob valid_url new_id now jobData db =
     (let ty = (case cj_type jobData of None \<Rightarrow> Single | Some t \<Rightarrow> t);
          prio = num_or (cj_priority jobData) 5;
          errs = (case cast_ObjectId new_id of None \<Rightarrow> [''_id''] | Some oid \<Rightarrow> []) @
                 validation_errors valid_url jobData prio
      in if errs \<noteq> [] then Inl (ValidationError errs)
         else
           (case cast_ObjectId new_id of
              None \<Rightarrow> Inl (ValidationError errs)
            | Some oid \<Rightarrow>
                if jobs db oid \<noteq> None then Inl (DuplicateKey oid)
                else
                  (let job = \<lparr>job_id = oid,
                              jname = js_trim (case cj_name jobData of None \<Rightarrow> [] | Some n \<Rightarrow> n),
                              description = map_option js_trim (cj_description jobData),
                              url = (case cj_url jobData of None \<Rightarrow> [] | Some u \<Rightarrow> u),
                              jtype = ty, jstatus = Pending, priority = prio,
                              assignedWorker = None, workerInfo = None,
                              jschedule = map_option (\<lambda>sc. sc\<lparr>sched_startDate := None\<rparr>)
                                            (cj_schedule jobData),
                              startTime = None, endTime = None, duration = None, attempts = 0,
                              lastAttempt = None, logs = [], results = Map.empty,
                              createdBy = cj_createdBy jobData, updatedAt = now,
                              tags = (case cj_tags jobData of None \<Rightarrow> [] | Some ts \<Rightarrow> ts)\<rparr>;
                       db1 = db\<lparr>jobs := (jobs db)(oid \<mapsto> job)\<rparr>
                   in case (if jtype job = Single then queueJob now oid db1 else Inr db1) of
                        Inl e \<Rightarrow> Inl e
                      | Inr db2 \<Rightarrow>
                          Inr (addLog now ''info'' ''Job created successfully'' job,
                               (case jobs db2 oid of
                                  None \<Rightarrow> db2
                                | Some stored \<Rightarrow>
                                    db2\<lparr>jobs := (jobs db2)(oid \<mapsto>
                                           addLog now ''info'' ''Job created successfully'' stored)\<rparr>)))))"

section \<open>Batch expansion\<close>

datatype url_pattern_type = UP_sequential | UP_list | UP_pattern

record url_pattern =
  up_type :: url_pattern_type
  up_urls :: "string list option"
  up_startNumber :: "int option"
  up_pattern :: "string option"

text \<open>A template literal prints an absent value as \<^verbatim>\<open>undefined\<close>.\<close>

definition template_str :: "string option \<Rightarrow> string" where
  "template_str x = (case x of None \<Rightarrow> ''undefined'' | Some v \<Rightarrow> v)"

text \<open>
  \<^verbatim>\<open>xs[i % xs.length]\<close>: on the empty list the index is NaN and the element read is
  \<^verbatim>\<open>undefined\<close>.
\<close>

definition cycle_nth :: "'a list \<Rightarrow> nat \<Rightarrow> 'a option" where
  "cycle_nth xs i = (if xs = [] then None else Some (xs ! (i mod length xs)))"

text \<open>
  \<^verbatim>\<open>generateUrls(quantity, urlPattern, baseUrl)\<close>. Each of the three loops runs for
  \<open>i = 0, ..., quantity - 1\<close>; the first branch is taken when there is no pattern at all as
  well as when its type is sequential.
\<close>

definition generateUrls :: "int \<Rightarrow> url_pattern option \<Rightarrow> string option \<Rightarrow> string option list" where
  "generateUrls quantity urlPattern baseUrl =
     (case urlPattern of
        None \<Rightarrow>
          map (\<lambda>i. Some (js_replace ''{number}'' (js_toString (1 + int i))
                            (template_str baseUrl @ ''?page={number}'')))
              [0..<nat quantity]
      | Some p \<Rightarrow>
          if up_type p = UP_sequential then
            (let startNum = num_or (up_startNumber p) 1;
                 pattern = str_or (up_pattern p) (template_str baseUrl @ ''?page={number}'')
             in map (\<lambda>i. Some (js_replace ''{number}'' (js_toString (startNum + int i)) pattern))
                    [0..<nat quantity])
          else if up_type p = UP_list \<and> up_urls p \<noteq> None then
            (case up_urls p of
               Some urls \<Rightarrow> map (\<lambda>i. cycle_nth urls i) [0..<nat quantity]
             | None \<Rightarrow> [])
          else map (\<lambda>i. baseUrl) [0..<nat quantity])"

datatype name_pattern_type = NP_sequential | NP_custom

record name_pattern =
  np_type :: name_pattern_type
  np_prefix :: "string option"
  np_suffix :: "string option"
  np_customNames :: "string list option"

definition generateNames :: "int \<Rightarrow> name_pattern option \<Rightarrow> string option \<Rightarrow> string option list" where
  "generateNames quantity namePattern baseName =
     (case namePattern of
        None \<Rightarrow>
          map (\<lambda>i. Some (template_str baseName @ '' '' @ js_toString (int i + 1))) [0..<nat quantity]
      | Some p \<Rightarrow>
          if np_type p = NP_sequential then
            (let prefix = (if str_or (np_prefix p) [] \<noteq> [] then str_or (np_prefix p) []
                           else template_str baseName);
                 suffix = str_or (np_suffix p) []
             in map (\<lambda>i. Some (prefix @ '' '' @ js_toString (int i + 1) @
                                (if suffix \<noteq> [] then '' '' @ suffix else [])))
                    [0..<nat quantity])
          else if np_type p = NP_custom \<and> np_customNames p \<noteq> None then
            (case np_customNames p of
               Some names \<Rightarrow> map (\<lambda>i. cycle_nth names i) [0..<nat quantity]
             | None \<Rightarrow> [])
          else map (\<lambda>i. Some (template_str baseName @ '' '' @ js_toString (int i + 1)))
                   [0..<nat quantity])"

text \<open>\<^verbatim>\<open>getVariation(variations, index, defaultValue)\<close>.\<close>

definition getVariation :: "'a list option \<Rightarrow> nat \<Rightarrow> 'a \<Rightarrow> 'a" where
  "getVariation variations index defaultValue =
     (case variations of
        None \<Rightarrow> defaultValue
      | Some vs \<Rightarrow> if vs = [] then defaultValue else vs ! (index mod length vs))"

record batch_scheduling =
  bs_distributeOverTime :: bool
  bs_intervalBetweenJobs :: "rat option"
  bs_randomizeInterval :: bool

record batch_variations =
  bv_priorities :: "int list option"
  bv_regions :: "string list option"
  bv_intents :: "string list option"
  bv_tags :: "string list list option"

record batch_data =
  bd_baseJob :: create_job_data
  bd_quantity :: int
  bd_urlPattern :: "url_pattern option"
  bd_namePattern :: "name_pattern option"
  bd_scheduling :: "batch_scheduling option"
  bd_variations :: "batch_variations option"

text \<open>
  What the batch expansion takes from outside: the acceptance of a URL by \<^verbatim>\<open>new URL\<close>,
  and for the job of index \<open>i\<close> its \<^verbatim>\<open>nanoid()\<close>, the clock at its creation (the waits
  between two creations only move the clock) and its draw of \<^verbatim>\<open>Math.random()\<close>.
\<close>

record batch_env =
  env_valid_url :: "string \<Rightarrow> bool"
  env_ids :: "nat \<Rightarrow> string"
  env_clock :: "nat \<Rightarrow> int"
  env_random :: "nat \<Rightarrow> rat"

text \<open>\<^verbatim>\<open>new Date(t)\<close> drops the fraction of a time value.\<close>

definition js_trunc :: "rat \<Rightarrow> int" where
  "js_trunc x = (if x \<ge> 0 then \<lfloor>x\<rfloor> else \<lceil>x\<rceil>)"

definition calculateScheduleForBatchJob ::
  "int \<Rightarrow> rat \<Rightarrow> job_schedule \<Rightarrow> nat \<Rightarrow> batch_scheduling \<Rightarrow> job_schedule" where
  "calculateScheduleForBatchJob now rnd baseSchedule jobIndex scheduling =
     (if bs_distributeOverTime scheduling then
        (let startDate = (case sched_startDate baseSchedule of None \<Rightarrow> now | Some d \<Rightarrow> d);
             intervalMs = (case bs_intervalBetweenJobs scheduling of
                             None \<Rightarrow> 60000
                           | Some v \<Rightarrow> if v * 1000 = 0 then 60000 else v * 1000);
             jobStartTime = js_trunc (of_int startDate + of_nat jobIndex * intervalMs)
         in if bs_randomizeInterval scheduling then
              baseSchedule\<lparr>sched_startDate :=
                Some (js_trunc (of_int jobStartTime + (rnd - 1 / 2) * intervalMs * (3 / 10)))\<rparr>
            else baseSchedule\<lparr>sched_startDate := Some jobStartTime\<rparr>)
      else baseSchedule)"

text \<open>The \<^verbatim>\<open>jobData\<close> that the loop of \<^verbatim>\<open>createBatchJobs\<close> builds for the index \<open>i\<close>.\<close>

definition batch_jobData ::
  "batch_env \<Rightarrow> batch_data \<Rightarrow> string option list \<Rightarrow> string option list \<Rightarrow> nat \<Rightarrow> create_job_data" where
  "batch_jobData env bd names urls i =
     (let baseJob = bd_baseJob bd;
          variations = bd_variations bd;
          jobData = baseJob\<lparr>
            cj_name := names ! i,
            cj_url := urls ! i,
            cj_type := Some Scheduled,
            cj_priority := Some (getVariation (Option.bind variations bv_priorities) i
                                   (num_or (cj_priority baseJob) 5)),
            cj_fingerprintRegion := getVariation
                (map_option (map Some) (Option.bind variations bv_regions)) i
                (cj_fingerprintRegion baseJob),
            cj_intent := getVariation
                (map_option (map Some) (Option.bind variations bv_intents)) i (cj_intent baseJob),
            cj_tags := Some ((case cj_tags baseJob of None \<Rightarrow> [] | Some ts \<Rightarrow> ts) @
                             [''batch-job'', ''batch-'' @ js_toString (env_clock env i)] @
                             getVariation (Option.bind variations bv_tags) i [])\<rparr>
      in case (bd_scheduling bd, cj_schedule baseJob) of
           (Some scheduling, Some baseSchedule) \<Rightarrow>
             if bs_distributeOverTime scheduling then
               jobData\<lparr>cj_schedule := Some (calculateScheduleForBatchJob (env_clock env i)
                         (env_random env i) baseSchedule i scheduling)\<rparr>
             else jobData
         | _ \<Rightarrow> jobData)"

fun error_message :: "error \<Rightarrow> string" where
  "error_message (NotFound m) = m"
| "error_message (ValidationError paths) = ''Job validation failed: '' @ join_paths paths"
| "error_message (CastError ty v) = ''Cast to '' @ ty @ '' failed for value '' @ v"
| "error_message (DuplicateKey m) = ''duplicate key: '' @ m"

text \<open>
  The loop of \<^verbatim>\<open>createBatchJobs\<close> over the indices still to do, with the created jobs, the
  error messages and the store so far. A creation that throws adds its message and the
  loop goes on.
\<close>

fun batch_loop ::
  "batch_env \<Rightarrow> batch_data \<Rightarrow> string option list \<Rightarrow> string option list \<Rightarrow> nat list \<Rightarrow>
   job list \<times> string list \<times> store \<Rightarrow> job list \<times> string list \<times> store" where
  "batch_loop env bd names urls [] acc = acc"
| "batch_loop env bd names urls (i # rest) (createdJobs, errors, db) =
     (case createJob (env_valid_url env) (env_ids env i) (env_clock env i)
             (batch_jobData env bd names urls i) db of
        Inl e \<Rightarrow>
          batch_loop env bd names urls rest
            (createdJobs,
             errors @ [''Failed to create job '' @ js_toString (int i + 1) @ '': '' @ error_message e],
             db)
      | Inr (job, db') \<Rightarrow> batch_loop env bd names urls rest (createdJobs @ [job], errors, db'))"

record batch_result =
  br_success :: bool
  br_jobs :: "job list"
  br_totalCreated :: nat
  br_errors :: "string list"

definition createBatchJobs :: "batch_env \<Rightarrow> batch_data \<Rightarrow> store \<Rightarrow> batch_result \<times> store" where
  "createBatchJobs env bd db =
     (let urls = generateUrls (bd_quantity bd) (bd_urlPattern bd) (cj_url (bd_baseJob bd));
          names = generateNames (bd_quantity bd) (bd_namePattern bd) (cj_name (bd_baseJob bd))
      in case batch_loop env bd names urls [0..<nat (bd_quantity bd)] ([], [], db) of
           (createdJobs, errors, db') \<Rightarrow>
             (\<lparr>br_success = (errors = []), br_jobs = createdJobs,
               br_totalCreated = length createdJobs, br_errors = errors\<rparr>, db'))"

text \<open>
  A job of type scheduled and status pending whose stored document is scheduled and
  pending as well.
\<close>

definition scheduled_pending :: "store \<Rightarrow> job \<Rightarrow> bool" where
  "scheduled_pending db j =
     (jtype j = Scheduled \<and> jstatus j = Pending \<and>
      map_option jtype (jobs db (job_id j)) = Some Scheduled \<and>
      map_option jstatus (jobs db (job_id j)) = Some Pending)"

text \<open>
  A base job of type single, an environment whose ids are strings that cast to ObjectId,
  and a batch of two, for the examples.
\<close>

definition sample_base_job :: create_job_data where
  "sample_base_job =
     \<lparr>cj_name = Some ''Monitor'', cj_description = None, cj_url = Some ''https://x.com'',
      cj_type = Some Single, cj_priority = Some 7, cj_schedule = None,
      cj_createdBy = ''system'', cj_tags = None, cj_intent = None,
      cj_fingerprintRegion = None\<rparr>"

definition sample_env :: batch_env where
  "sample_env =
     \<lparr>env_valid_url = (\<lambda>u. take 8 u = ''https://''),
      env_ids = (\<lambda>i. ''507f1f77bcf86cd79943901'' @ js_toString (int i)),
      env_clock = (\<lambda>i. 1000 + int i),
      env_random = (\<lambda>i. 1 / 2)\<rparr>"

text \<open>The same environment with an id as \<^verbatim>\<open>nanoid()\<close> returns it.\<close>

definition sample_nanoid_env :: batch_env where
  "sample_nanoid_env = sample_env\<lparr>env_ids := (\<lambda>i. ''V1StGXR8_Z5jdHi6B-myT'')\<rparr>"

definition sample_batch :: batch_data where
  "sample_batch =
     \<lparr>bd_baseJob = sample_base_job, bd_quantity = 2, bd_urlPattern = None,
      bd_namePattern = None, bd_scheduling = None, bd_variations = None\<rparr>"

definition empty_store :: store where
  "empty_store = \<lparr>jobs = Map.empty, workers = []\<rparr>"

section \<open>Heartbeats (app/api/workers/[id]/heartbeat/route.ts)\<close>

text \<open>
  The body of a heartbeat and the entry that the route keeps for a worker in its in-memory
  registry, a JavaScript \<^verbatim>\<open>Map\<close> from the worker id: an association list, where
  \<^verbatim>\<open>get\<close> is \<open>map_of\<close> and \<^verbatim>\<open>set\<close> is \<open>AList.update\<close> (a known key keeps its place, a new
  one goes to the end). Capabilities that are the empty object are \<open>None\<close>.
\<close>

datatype reported_status = Reported_online | Reported_busy | Reported_offline

record hb_metrics =
  memoryUsage :: rat
  cpuUsage :: rat
  diskUsage :: rat
  networkUsage :: rat
  jobsCompleted :: int
  jobsFailed :: int
  averageResponseTime :: rat

record hb_performance =
  perf_successRate :: rat
  perf_averageJobDuration :: rat

record hb_capabilities =
  cap_maxConcurrentJobs :: int
  cap_supportedBrowsers :: "string list"
  cap_memory :: rat
  cap_cpu :: rat

record heartbeat_data =
  hb_status :: reported_status
  hb_currentJobs :: int
  hb_metrics :: hb_metrics
  hb_performance :: hb_performance
  hb_capabilities :: "hb_capabilities option"

record registry_entry =
  re_id :: string
  re_status :: reported_status
  re_lastSeen :: int
  re_currentJobs :: int
  re_metrics :: hb_metrics
  re_metrics_lastUpdated :: int
  re_performance :: hb_performance
  re_totalJobsProcessed :: int
  re_totalJobsFailed :: int
  re_capabilities :: "hb_capabilities option"

type_synonym registry = "(string \<times> registry_entry) list"

text \<open>\<^verbatim>\<open>Math.round\<close>: the nearest integer, a half going up.\<close>

definition js_round :: "rat \<Rightarrow> int" where
  "js_round x = \<lfloor>x + 1 / 2\<rfloor>"

text \<open>\<^verbatim>\<open>x || d\<close> on a number: 0 is falsy.\<close>

definition rat_or :: "rat \<Rightarrow> rat \<Rightarrow> rat" where
  "rat_or x d = (if x = 0 then d else x)"

definition calculateHealthScore :: "registry_entry \<Rightarrow> int" where
  "calculateHealthScore worker =
     (let metrics = re_metrics worker;
          cpuPenalty = max 0 (cpuUsage metrics - 80) * 2;
          memoryPenalty = max 0 (memoryUsage metrics - 3000) / 100;
          score1 = 100 - cpuPenalty - memoryPenalty;
          successRate = rat_or (perf_successRate (re_performance worker)) 100;
          score2 = (if successRate < 95 then score1 - (95 - successRate) * 2 else score1);
          score3 = (if re_status worker = Reported_offline then 0
                    else if re_status worker = Reported_online then score2 + 10
                    else score2)
      in max 0 (min 100 (js_round score3)))"

definition calculateEfficiency :: "registry_entry \<Rightarrow> int" where
  "calculateEfficiency worker =
     (let currentJobs = re_currentJobs worker;
          maxJobs = num_or (map_option cap_maxConcurrentJobs (re_capabilities worker)) 3;
          successRate = rat_or (perf_successRate (re_performance worker)) 100;
          utilization = (if maxJobs > 0 then of_int currentJobs / of_int maxJobs * 100 else 0)
      in js_round ((utilization + successRate) / 2))"

record hb_response =
  resp_code :: nat
  resp_success :: bool
  resp_maxConcurrentJobs :: int
  resp_globalWorkerCount :: nat
  resp_onlineWorkers :: nat
  resp_totalActiveJobs :: int
  resp_healthScore :: int
  resp_efficiency :: int

text \<open>
  \<^verbatim>\<open>POST /workers/{id}/heartbeat\<close>. A body that cannot be read (no JSON, or no metrics in
  it) is \<open>None\<close>: the handler throws on it and its \<^verbatim>\<open>catch\<close> answers 500. Otherwise the
  entry is built from \<^verbatim>\<open>workerRegistry.get(workerId) || {}\<close> and the body, and stored with
  \<^verbatim>\<open>workerRegistry.set\<close>; the handler has no other branch.
\<close>

definition heartbeat_POST ::
  "int \<Rightarrow> string \<Rightarrow> heartbeat_data option \<Rightarrow> registry \<Rightarrow> hb_response \<times> registry" where
  "heartbeat_POST now workerId body workerRegistry =
     (case body of
        None \<Rightarrow>
          (\<lparr>resp_code = 500, resp_success = False, resp_maxConcurrentJobs = 0,
            resp_globalWorkerCount = 0, resp_onlineWorkers = 0, resp_totalActiveJobs = 0,
            resp_healthScore = 0, resp_efficiency = 0\<rparr>, workerRegistry)
      | Some heartbeatData \<Rightarrow>
          (let existingWorker = map_of workerRegistry workerId;
               updatedWorker =
                 \<lparr>re_id = workerId,
                  re_status = hb_status heartbeatData,
                  re_lastSeen = now,
                  re_currentJobs = hb_currentJobs heartbeatData,
                  re_metrics = hb_metrics heartbeatData,
                  re_metrics_lastUpdated = now,
                  re_performance = hb_performance heartbeatData,
                  re_totalJobsProcessed = jobsCompleted (hb_metrics heartbeatData),
                  re_totalJobsFailed = jobsFailed (hb_metrics heartbeatData),
                  re_capabilities =
                    (case hb_capabilities heartbeatData of
                       Some c \<Rightarrow> Some c
                     | None \<Rightarrow> (case existingWorker of
                                  None \<Rightarrow> None
                                | Some e \<Rightarrow> re_capabilities e))\<rparr>;
               registry' = AList.update workerId updatedWorker workerRegistry
           in (\<lparr>resp_code = 200, resp_success = True,
                resp_maxConcurrentJobs =
                  num_or (map_option cap_maxConcurrentJobs (hb_capabilities heartbeatData)) 3,
                resp_globalWorkerCount = length registry',
                resp_onlineWorkers =
                  length (filter (\<lambda>(k, w). re_status w = Reported_online) registry'),
                resp_totalActiveJobs = sum_list (map (\<lambda>(k, w). re_currentJobs w) registry'),
                resp_healthScore = calculateHealthScore updatedWorker,
                resp_efficiency = calculateEfficiency updatedWorker\<rparr>,
               registry')))"

text \<open>A heartbeat of an idle, healthy worker, for the examples.\<close>

definition sample_heartbeat :: heartbeat_data where
  "sample_heartbeat =
     \<lparr>hb_status = Reported_online, hb_currentJobs = 1,
      hb_metrics = \<lparr>memoryUsage = 512, cpuUsage = 20, diskUsage = 10, networkUsage = 1,
                    jobsCompleted = 4, jobsFailed = 0, averageResponseTime = 300\<rparr>,
      hb_performance = \<lparr>perf_successRate = 100, perf_averageJobDuration = 5000\<rparr>,
      hb_capabilities = None\<rparr>"

text \<open>A worker document with the given status, load, capacity and priority range, for the examples.\<close>

definition sample_worker ::
  "string \<Rightarrow> worker_status \<Rightarrow> int \<Rightarrow> int \<Rightarrow> int \<Rightarrow> int \<Rightarrow> worker" where
  "sample_worker wid st cur cap pmin pmax =
     \<lparr>worker_identifier = wid, wname = wid, ip = ''10.0.0.1'', wstatus = st,
      maxConcurrentJobs = cap, currentJobs = cur, totalJobsProcessed = 0, successRate = 0,
      averageJobDuration = 0, priorityFilter_min = pmin, priorityFilter_max = pmax\<rparr>"

section \<open>Properties of the worker counters\<close>


lemma maxConcurrentJobs_assignJob: "maxConcurrentJobs (assignJob w) = maxConcurrentJobs w"
  by (simp add: assignJob_def Let_def)


lemma maxConcurrentJobs_completeJob:
  "maxConcurrentJobs (completeJob s d w) = maxConcurrentJobs w"
  by (simp add: completeJob_def Let_def)

lemma maxConcurrentJobs_apply_event: "maxConcurrentJobs (apply_event w ev) = maxConcurrentJobs w"
  by (cases ev) (simp_all add: maxConcurrentJobs_assignJob maxConcurrentJobs_completeJob)







text \<open>
  C6: a worker with totalJobsProcessed = n and successRate = k/n (k successes among n
  jobs, k \<le> n; at n = 0 the rate is the initial 0) that completes one more job ends with
  successRate exactly (k + s)/(n + 1), s being 1 for a success and 0 for a failure. The
  rate is a rational number here, so the equality is one of exact arithmetic.
\<close>

theorem C6_successRate_incremental:
  assumes "totalJobsProcessed w = int n"
    and "k \<le> n"
    and "successRate w = of_nat k / of_nat n"
  shows "successRate (completeJob success dur w)
         = (of_nat k + (if success then 1 else 0)) / (of_nat n + 1)"
proof (cases "n = 0")
  case True
  then show ?thesis using assms by (simp add: completeJob_def Let_def)
next
  case False
  then have "successRate w * of_nat n = of_nat k"
    using assms(3) by simp
  then show ?thesis
    using assms(1) by (simp add: completeJob_def Let_def)
qed

theorem C6_successRate_incremental_witness:
  "totalJobsProcessed ((registered ''w1'' 3)\<lparr>totalJobsProcessed := 9, successRate := 8 / 9\<rparr>) = int 9 \<and>
   (8::nat) \<le> 9 \<and>
   successRate (completeJob True 5000
      ((registered ''w1'' 3)\<lparr>totalJobsProcessed := 9, successRate := 8 / 9\<rparr>)) = 9 / 10"
proof -
  let ?w = "(registered ''w1'' 3)\<lparr>totalJobsProcessed := 9, successRate := 8 / 9\<rparr>"
  have t: "totalJobsProcessed ?w = int 9" by simp
  have r: "successRate ?w = of_nat 8 / of_nat 9" by simp
  show ?thesis
    using C6_successRate_incremental [OF t _ r, of True 5000] by simp
qed

section \<open>Status updates\<close>

text \<open>
  C2, as stated, at a concrete input: completed to running is not an edge of the graph,
  and updateStatus applies it: the status is running afterwards and the attempt counter
  has moved.
\<close>

theorem C2_counterexample:
  "\<not> spec_transition Completed Running \<and>
   jstatus (updateStatus 100 Running None (sample_job ''j1'' Single Completed 5)) = Running \<and>
   attempts (updateStatus 100 Running None (sample_job ''j1'' Single Completed 5)) = 1 \<and>
   updateStatus 100 Running None (sample_job ''j1'' Single Completed 5)
     \<noteq> sample_job ''j1'' Single Completed 5"
proof -
  have a: "attempts (updateStatus 100 Running None (sample_job ''j1'' Single Completed 5)) = 1"
    by (simp add: updateStatus_def sample_job_def Let_def)
  have b: "attempts (sample_job ''j1'' Single Completed 5) = 0"
    by (simp add: sample_job_def)
  have "updateStatus 100 Running None (sample_job ''j1'' Single Completed 5)
        \<noteq> sample_job ''j1'' Single Completed 5"
    using a b by (metis zero_neq_one)
  moreover have "jstatus (updateStatus 100 Running None (sample_job ''j1'' Single Completed 5)) = Running"
    by (simp add: updateStatus_def sample_job_def Let_def)
  ultimately show ?thesis using a by (simp add: spec_transition_def)
qed

text \<open>
  C2 (amended): for every job, whatever its current status, and every attempted status,
  updateStatus applies the change: the status afterwards is the attempted one, the update
  time is the current time, and the attempt counter goes up by one exactly when the
  attempted status is running. No pair of statuses is rejected, and the method has no
  error outcome.
\<close>

theorem C2_updateStatus_applies_every_status:
  "jstatus (updateStatus now s d j) = s \<and>
   updatedAt (updateStatus now s d j) = now \<and>
   attempts (updateStatus now s d j) = (if s = Running then attempts j + 1 else attempts j)"
  by (simp add: updateStatus_def Let_def split: option.splits)

theorem C2_updateStatus_applies_every_status_witness:
  "jstatus (updateStatus 100 Pending None (sample_job ''j1'' Single Cancelled 5)) = Pending \<and>
   attempts (updateStatus 100 Pending None (sample_job ''j1'' Single Cancelled 5)) = 0"
  using C2_updateStatus_applies_every_status
          [of 100 Pending None "sample_job ''j1'' Single Cancelled 5"]
  by (simp add: sample_job_def)

section \<open>Ids of jobs\<close>

lemma is_hex_hex_lower: "is_hex c \<Longrightarrow> is_hex (hex_lower c)"
  by (auto simp add: is_hex_def hex_lower_def)

lemma hex_lower_idem: "hex_lower (hex_lower c) = hex_lower c"
  by (simp add: hex_lower_def)

text \<open>An ObjectId written as a string casts to itself.\<close>

lemma cast_ObjectId_idem: "cast_ObjectId s = Some oid \<Longrightarrow> cast_ObjectId oid = Some oid"
  by (auto simp add: cast_ObjectId_def list_all_iff is_hex_hex_lower hex_lower_idem split: if_splits)

text \<open>No value of \<^verbatim>\<open>nanoid()\<close> casts to ObjectId: it has 21 characters.\<close>

lemma nanoid_does_not_cast: "nanoid_value s \<Longrightarrow> cast_ObjectId s = None"
  by (simp add: nanoid_value_def cast_ObjectId_def)

lemma sample_id_casts:
  "cast_ObjectId ''507f1f77bcf86cd799439011'' = Some ''507f1f77bcf86cd799439011''"
  by (simp add: cast_ObjectId_def is_hex_def hex_lower_def)

lemma sample_id0_casts:
  "cast_ObjectId ''507f1f77bcf86cd799439010'' = Some ''507f1f77bcf86cd799439010''"
  by (simp add: cast_ObjectId_def is_hex_def hex_lower_def)

section \<open>Assignment\<close>

text \<open>
  The capacity condition of both filters has a string for its operand, on a path that the
  schema declares as a number. The cast of that string fails, so the query is rejected
  before any worker is looked at. For a job id that casts and a job that is stored, this
  is the outcome of every call; for a job id that does not cast, the call is rejected in
  \<^verbatim>\<open>findById\<close> already.
\<close>

lemma capacity_operand_not_a_number: "js_Number ''$capabilities.maxConcurrentJobs'' = None"
  by (simp add: js_Number_def digit_value_def)

lemma pinned_filter_rejected:
  "find_workers (pinned_filter wid) ws = Inl (CastError ''Number'' ''$capabilities.maxConcurrentJobs'')"
  by (simp add: find_workers_def pinned_filter_def capacity_operand_not_a_number)

lemma auto_filter_rejected:
  "find_workers (auto_filter prio) ws = Inl (CastError ''Number'' ''$capabilities.maxConcurrentJobs'')"
  by (simp add: find_workers_def auto_filter_def capacity_operand_not_a_number)

lemma select_worker_rejected:
  "select_worker job workerId ws = Inl (CastError ''Number'' ''$capabilities.maxConcurrentJobs'')"
  by (simp add: select_worker_def findOne_worker_def pinned_filter_rejected auto_filter_rejected)

lemma assignJobToWorker_rejected:
  "cast_ObjectId jobId = Some oid \<Longrightarrow> jobs db oid = Some job \<Longrightarrow>
   assignJobToWorker now jobId workerId db
   = Inl (CastError ''Number'' ''$capabilities.maxConcurrentJobs'')"
  by (simp add: assignJobToWorker_def findById_def select_worker_rejected)

lemma assignJobToWorker_id_not_cast:
  "cast_ObjectId jobId = None \<Longrightarrow>
   assignJobToWorker now jobId workerId db = Inl (CastError ''ObjectId'' jobId)"
  by (simp add: assignJobToWorker_def findById_def)

text \<open>
  C3 at a concrete input: one job of priority 5, stored under an id that casts, and one
  worker that is online, holds no job, has capacity 1 and accepts priorities 1 to 10. The
  worker is a candidate in the sense of the claim, and the automatic assignment returns no
  worker: the worker query is rejected with a CastError on the capacity operand.
\<close>

theorem C3_auto_assignment_rejected:
  "cast_ObjectId ''507f1f77bcf86cd799439011'' = Some ''507f1f77bcf86cd799439011'' \<and>
   wstatus (sample_worker ''w1'' Online 0 1 1 10) = Online \<and>
   currentJobs (sample_worker ''w1'' Online 0 1 1 10)
     < maxConcurrentJobs (sample_worker ''w1'' Online 0 1 1 10) \<and>
   priorityFilter_min (sample_worker ''w1'' Online 0 1 1 10) \<le> 5 \<and>
   5 \<le> priorityFilter_max (sample_worker ''w1'' Online 0 1 1 10) \<and>
   assignJobToWorker 100 ''507f1f77bcf86cd799439011'' None
     \<lparr>jobs = [''507f1f77bcf86cd799439011'' \<mapsto>
                sample_job ''507f1f77bcf86cd799439011'' Single Queued 5],
      workers = [sample_worker ''w1'' Online 0 1 1 10]\<rparr>
   = Inl (CastError ''Number'' ''$capabilities.maxConcurrentJobs'')"
  by (simp add: sample_worker_def assignJobToWorker_def findById_def sample_id_casts
      select_worker_def str_or_def find_workers_def auto_filter_def js_Number_def digit_value_def)

text \<open>
  C4 at a concrete input: a job of priority 3, stored under an id that casts, pinned to a
  worker that is online and below its capacity but accepts priorities 5 to 10 only. The
  pinned worker does not satisfy the filter of the claim, and the call does not return
  null: the worker query is rejected with a CastError on the capacity operand.
\<close>

theorem C4_pinned_assignment_rejected:
  "cast_ObjectId ''507f1f77bcf86cd799439011'' = Some ''507f1f77bcf86cd799439011'' \<and>
   \<not> priorityFilter_min (sample_worker ''w1'' Online 0 1 5 10) \<le> 3 \<and>
   assignJobToWorker 100 ''507f1f77bcf86cd799439011'' (Some ''w1'')
     \<lparr>jobs = [''507f1f77bcf86cd799439011'' \<mapsto>
                sample_job ''507f1f77bcf86cd799439011'' Single Queued 3],
      workers = [sample_worker ''w1'' Online 0 1 5 10, sample_worker ''w2'' Online 0 1 1 10]\<rparr>
   = Inl (CastError ''Number'' ''$capabilities.maxConcurrentJobs'')"
  by (simp add: sample_worker_def assignJobToWorker_def findById_def sample_id_casts
      select_worker_def str_or_def find_workers_def findOne_worker_def pinned_filter_def
      js_Number_def digit_value_def)

section \<open>Cancellation\<close>

text \<open>
  A job that is found is cancelled whatever its status; an id that does not cast is
  answered 500 and changes nothing.
\<close>

lemma cancelJob_found:
  assumes "cast_ObjectId jobId = Some oid" and "jobs db oid = Some job"
  shows "\<exists>db'. cancelJob now jobId reason db = Inr (True, db') \<and>
               map_option jstatus (jobs db' (job_id job)) = Some Cancelled"
proof -
  have "find_workers [Eq P_identifier (Str w)] ws
        = Inr (filter (\<lambda>x. worker_identifier x = w) ws)" for w ws
    by (simp add: find_workers_def)
  then show ?thesis
    using assms
    by (auto simp add: cancelJob_def findById_def Let_def findOne_worker_def save_worker_def
        updateStatus_def addLog_def split: list.splits)
qed

lemma jobs_DELETE_id_not_cast:
  "cast_ObjectId jobId = None \<Longrightarrow>
   jobs_DELETE now jobId reason db = ((500, ''Failed to cancel job''), db)"
  by (simp add: jobs_DELETE_def cancelJob_def findById_def)

text \<open>
  C8 at a concrete input: a job that is completed, stored under an id that casts.
  cancelJob returns true, the route answers 200, and the stored job is cancelled
  afterwards.
\<close>

theorem C8_cancel_completed_job:
  "cast_ObjectId ''507f1f77bcf86cd799439011'' = Some ''507f1f77bcf86cd799439011'' \<and>
   fst (jobs_DELETE 100 ''507f1f77bcf86cd799439011'' None
          \<lparr>jobs = [''507f1f77bcf86cd799439011'' \<mapsto>
                     sample_job ''507f1f77bcf86cd799439011'' Single Completed 5],
           workers = []\<rparr>)
   = (200, ''Job cancelled successfully'') \<and>
   map_option jstatus
     (jobs (snd (jobs_DELETE 100 ''507f1f77bcf86cd799439011'' None
          \<lparr>jobs = [''507f1f77bcf86cd799439011'' \<mapsto>
                     sample_job ''507f1f77bcf86cd799439011'' Single Completed 5],
           workers = []\<rparr>)) ''507f1f77bcf86cd799439011'')
   = Some Cancelled"
  by (simp add: jobs_DELETE_def cancelJob_def findById_def sample_id_casts str_or_def
      sample_job_def updateStatus_def addLog_def Let_def)

section \<open>Generated URLs\<close>

text \<open>
  A template that holds the placeholder, with no opening brace before it, has the
  placeholder replaced and the text around it kept.
\<close>

lemma js_replace_placeholder:
  "CHR ''{'' \<notin> set pre \<Longrightarrow>
   js_replace (CHR ''{'' # pat) r (pre @ (CHR ''{'' # pat) @ post) = pre @ r @ post"
  by (induction pre) auto

lemma js_replace_default_template:
  assumes "CHR ''{'' \<notin> set base"
  shows "js_replace ''{number}'' r (base @ ''?page={number}'') = base @ ''?page='' @ r"
proof -
  have "CHR ''{'' \<notin> set (base @ ''?page='')" using assms by simp
  from js_replace_placeholder [OF this, of "''number}''" r "[]"]
  show ?thesis by simp
qed

text \<open>
  C7, as stated, at a concrete input: with no URL pattern at all (neither sequential nor
  list) and quantity 2, the URLs are not the base URL twice; they are the numbered pages
  of the base URL.
\<close>

theorem C7_counterexample:
  "generateUrls 2 None (Some ''https://x.com'')
     = [Some ''https://x.com?page=1'', Some ''https://x.com?page=2''] \<and>
   generateUrls 2 None (Some ''https://x.com'')
     \<noteq> [Some ''https://x.com'', Some ''https://x.com'']"
  by (simp add: generateUrls_def template_str_def js_toString_def digits_of_nat.simps
      digit_char_def upt_rec)

text \<open>
  C7 (amended): generateUrls returns as many URLs as the quantity, and the URL of index
  \<open>i\<close> is: when no pattern is given, the template made of the base URL followed by
  \<^verbatim>\<open>?page={number}\<close>, with its first \<^verbatim>\<open>{number}\<close> replaced by \<open>1 + i\<close>, which is the base
  URL followed by \<^verbatim>\<open>?page=\<close> and \<open>1 + i\<close> when the base URL has no opening brace; when
  the type is sequential, the template (the pattern given, or the base URL followed by
  \<^verbatim>\<open>?page={number}\<close> when none or an empty one is given) with its first \<^verbatim>\<open>{number}\<close>
  replaced by \<open>start + i\<close>, where start is the start number given if it is not 0, and 1
  if none is given, so that a pattern \<open>pre{number}post\<close> with no opening brace in \<open>pre\<close>
  gives \<open>pre\<close>, the number, \<open>post\<close>; when the type is list and a non-empty list is given,
  the element \<open>i mod length\<close> of the list; when the type is pattern, or list with no list
  given, the base URL.
\<close>

theorem C7_generateUrls_by_pattern:
  assumes "i < nat quantity"
  shows "length (generateUrls quantity urlPattern baseUrl) = nat quantity \<and>
         generateUrls quantity None baseUrl ! i
           = Some (js_replace ''{number}'' (js_toString (1 + int i))
                     (template_str baseUrl @ ''?page={number}'')) \<and>
         (CHR ''{'' \<notin> set base \<longrightarrow>
          generateUrls quantity None (Some base) ! i
           = Some (base @ ''?page='' @ js_toString (1 + int i))) \<and>
         (up_type p = UP_sequential \<and> up_startNumber p \<noteq> Some 0 \<longrightarrow>
          generateUrls quantity (Some p) baseUrl ! i
           = Some (js_replace ''{number}''
                     (js_toString ((case up_startNumber p of None \<Rightarrow> 1 | Some n \<Rightarrow> n) + int i))
                     (str_or (up_pattern p) (template_str baseUrl @ ''?page={number}'')))) \<and>
         (up_type p = UP_sequential \<and> up_startNumber p \<noteq> Some 0 \<and>
          up_pattern p = Some (pre @ ''{number}'' @ post) \<and> CHR ''{'' \<notin> set pre \<longrightarrow>
          generateUrls quantity (Some p) baseUrl ! i
           = Some (pre @
                   js_toString ((case up_startNumber p of None \<Rightarrow> 1 | Some n \<Rightarrow> n) + int i) @
                   post)) \<and>
         (up_type p = UP_list \<and> up_urls p = Some urls \<and> urls \<noteq> [] \<longrightarrow>
          generateUrls quantity (Some p) baseUrl ! i = Some (urls ! (i mod length urls))) \<and>
         (up_type p = UP_pattern \<or> (up_type p = UP_list \<and> up_urls p = None) \<longrightarrow>
          generateUrls quantity (Some p) baseUrl ! i = baseUrl)"
proof -
  have len: "length (generateUrls quantity urlPattern baseUrl) = nat quantity"
    by (auto simp add: generateUrls_def Let_def split: option.splits)
  have none: "generateUrls quantity None baseUrl ! i
           = Some (js_replace ''{number}'' (js_toString (1 + int i))
                     (template_str baseUrl @ ''?page={number}''))" for baseUrl
    using assms by (simp add: generateUrls_def)
  have plain: "generateUrls quantity None (Some base) ! i
           = Some (base @ ''?page='' @ js_toString (1 + int i))" if "CHR ''{'' \<notin> set base"
    using none [of "Some base"] js_replace_default_template [OF that]
    by (simp add: template_str_def)
  have seq: "generateUrls quantity (Some p) baseUrl ! i
           = Some (js_replace ''{number}''
                     (js_toString ((case up_startNumber p of None \<Rightarrow> 1 | Some n \<Rightarrow> n) + int i))
                     (str_or (up_pattern p) (template_str baseUrl @ ''?page={number}'')))"
    if "up_type p = UP_sequential \<and> up_startNumber p \<noteq> Some 0"
    using assms that
    by (auto simp add: generateUrls_def Let_def num_or_def split: option.splits)
  have seq_placeholder: "generateUrls quantity (Some p) baseUrl ! i
           = Some (pre @
                   js_toString ((case up_startNumber p of None \<Rightarrow> 1 | Some n \<Rightarrow> n) + int i) @
                   post)"
    if h: "up_type p = UP_sequential \<and> up_startNumber p \<noteq> Some 0 \<and>
        up_pattern p = Some (pre @ ''{number}'' @ post) \<and> CHR ''{'' \<notin> set pre"
  proof -
    have "str_or (up_pattern p) (template_str baseUrl @ ''?page={number}'')
          = pre @ ''{number}'' @ post"
      using h by (simp add: str_or_def)
    moreover have "js_replace ''{number}'' r (pre @ ''{number}'' @ post) = pre @ r @ post" for r
      using js_replace_placeholder [of pre "''number}''" r post] h by simp
    ultimately show ?thesis using seq h by simp
  qed
  have lst: "generateUrls quantity (Some p) baseUrl ! i = Some (urls ! (i mod length urls))"
    if "up_type p = UP_list \<and> up_urls p = Some urls \<and> urls \<noteq> []"
    using assms that by (simp add: generateUrls_def cycle_nth_def)
  have fallback: "generateUrls quantity (Some p) baseUrl ! i = baseUrl"
    if "up_type p = UP_pattern \<or> (up_type p = UP_list \<and> up_urls p = None)"
    using assms that by (auto simp add: generateUrls_def)
  from len none plain seq seq_placeholder lst fallback show ?thesis by blast
qed

text \<open>
  The witness: start number 5, quantity 3 and the pattern \<^verbatim>\<open>https://x.com/p-{number}\<close> give
  p-5, p-6, p-7 in this order; no pattern gives the numbered pages of the base URL; a list
  of two URLs is cycled; the type pattern gives the base URL.
\<close>

theorem C7_generateUrls_by_pattern_witness:
  "generateUrls 3 (Some \<lparr>up_type = UP_sequential, up_urls = None, up_startNumber = Some 5,
                          up_pattern = Some ''https://x.com/p-{number}''\<rparr>) (Some ''https://x.com'')
     = [Some ''https://x.com/p-5'', Some ''https://x.com/p-6'', Some ''https://x.com/p-7''] \<and>
   generateUrls 3 (Some \<lparr>up_type = UP_sequential, up_urls = None, up_startNumber = Some 5,
                          up_pattern = Some ''https://x.com/p-{number}''\<rparr>) (Some ''https://x.com'') ! 2
     = Some ''https://x.com/p-7'' \<and>
   generateUrls 3 None (Some ''https://x.com'') ! 2 = Some ''https://x.com?page=3'' \<and>
   generateUrls 3 (Some \<lparr>up_type = UP_list, up_urls = Some [''https://a.com'', ''https://b.com''],
                          up_startNumber = None, up_pattern = None\<rparr>) (Some ''https://x.com'') ! 2
     = Some ''https://a.com'' \<and>
   generateUrls 3 (Some \<lparr>up_type = UP_pattern, up_urls = None, up_startNumber = None,
                          up_pattern = Some ''https://x.com/p-{number}''\<rparr>) (Some ''https://x.com'') ! 2
     = Some ''https://x.com''"
proof -
  have i: "2 < nat 3" by simp
  have a: "generateUrls 3 (Some \<lparr>up_type = UP_sequential, up_urls = None, up_startNumber = Some 5,
                          up_pattern = Some ''https://x.com/p-{number}''\<rparr>) (Some ''https://x.com'')
     = [Some ''https://x.com/p-5'', Some ''https://x.com/p-6'', Some ''https://x.com/p-7'']"
    by (simp add: generateUrls_def num_or_def str_or_def js_toString_def digits_of_nat.simps
        digit_char_def upt_rec Let_def)
  have b: "generateUrls 3 (Some \<lparr>up_type = UP_sequential, up_urls = None, up_startNumber = Some 5,
                          up_pattern = Some ''https://x.com/p-{number}''\<rparr>) (Some ''https://x.com'') ! 2
     = Some ''https://x.com/p-7''"
    using C7_generateUrls_by_pattern [OF i,
        where baseUrl = "Some ''https://x.com''" and pre = "''https://x.com/p-''" and post = "[]"
          and urlPattern = None and base = "''https://x.com''" and urls = "[]"
          and p = "\<lparr>up_type = UP_sequential, up_urls = None, up_startNumber = Some 5,
                    up_pattern = Some ''https://x.com/p-{number}''\<rparr>"]
    by (simp add: str_or_def template_str_def js_toString_def digits_of_nat.simps digit_char_def)
  have n: "generateUrls 3 None (Some ''https://x.com'') ! 2 = Some ''https://x.com?page=3''"
    using C7_generateUrls_by_pattern [OF i,
        where baseUrl = "Some ''https://x.com''" and pre = "[]" and post = "[]"
          and urlPattern = None and base = "''https://x.com''" and urls = "[]"
          and p = "\<lparr>up_type = UP_pattern, up_urls = None, up_startNumber = None,
                    up_pattern = None\<rparr>"]
    by (simp add: str_or_def template_str_def js_toString_def digits_of_nat.simps digit_char_def)
  have c: "generateUrls 3 (Some \<lparr>up_type = UP_list, up_urls = Some [''https://a.com'', ''https://b.com''],
                          up_startNumber = None, up_pattern = None\<rparr>) (Some ''https://x.com'') ! 2
     = Some ''https://a.com''"
    using C7_generateUrls_by_pattern [OF i,
        where baseUrl = "Some ''https://x.com''" and pre = "[]" and post = "[]"
          and urlPattern = None and base = "''https://x.com''"
          and urls = "[''https://a.com'', ''https://b.com'']"
          and p = "\<lparr>up_type = UP_list, up_urls = Some [''https://a.com'', ''https://b.com''],
                    up_startNumber = None, up_pattern = None\<rparr>"]
    by (simp add: eval_nat_numeral)
  have d: "generateUrls 3 (Some \<lparr>up_type = UP_pattern, up_urls = None, up_startNumber = None,
                          up_pattern = Some ''https://x.com/p-{number}''\<rparr>) (Some ''https://x.com'') ! 2
     = Some ''https://x.com''"
    using C7_generateUrls_by_pattern [OF i,
        where baseUrl = "Some ''https://x.com''" and pre = "[]" and post = "[]"
          and urlPattern = None and base = "''https://x.com''" and urls = "[]"
          and p = "\<lparr>up_type = UP_pattern, up_urls = None, up_startNumber = None,
                    up_pattern = Some ''https://x.com/p-{number}''\<rparr>"]
    by simp
  show ?thesis using a b n c d by simp
qed

section \<open>Creation of a job\<close>

lemma validation_errors_priority_field [simp]:
  "validation_errors valid_url (jobData\<lparr>cj_priority := x\<rparr>) prio
   = validation_errors valid_url jobData prio"
  by (simp add: validation_errors_def)

lemma priority_in_validation_errors:
  "''priority'' \<in> set (validation_errors valid_url jobData p) \<longleftrightarrow> p < 1 \<or> 10 < p"
  by (auto simp add: validation_errors_def split: option.splits if_splits)

text \<open>
  A creation with an id that casts and is new, on data that pass the validation, succeeds:
  the document returned is pending, and the stored one is queued when the type is single
  and pending otherwise. A creation succeeds in this case only; in particular it succeeds
  with no value of \<^verbatim>\<open>nanoid()\<close>.
\<close>

lemma createJob_ok:
  assumes "cast_ObjectId new_id = Some oid"
    and "validation_errors valid_url jobData (num_or (cj_priority jobData) 5) = []"
    and "jobs db oid = None"
  shows "\<exists>j stored. createJob valid_url new_id now jobData db
            = Inr (j, db\<lparr>jobs := (jobs db)(oid \<mapsto> stored)\<rparr>) \<and>
          job_id j = oid \<and> jstatus j = Pending \<and>
          jtype j = (case cj_type jobData of None \<Rightarrow> Single | Some t \<Rightarrow> t) \<and>
          priority j = num_or (cj_priority jobData) 5 \<and>
          jtype stored = jtype j \<and> priority stored = priority j \<and>
          jstatus stored = (if jtype j = Single then Queued else Pending)"
  using assms cast_ObjectId_idem [OF assms(1)]
  by (auto simp add: createJob_def Let_def queueJob_def findById_def addLog_def updateStatus_def)

lemma createJob_Inr_cases:
  assumes "createJob valid_url new_id now jobData db = Inr (j, db')"
  shows "\<exists>oid. cast_ObjectId new_id = Some oid \<and>
           validation_errors valid_url jobData (num_or (cj_priority jobData) 5) = [] \<and>
           jobs db oid = None"
  using assms
  by (auto simp add: createJob_def Let_def split: if_splits option.splits)

lemma createJob_refused:
  "cast_ObjectId new_id = None \<or>
   validation_errors valid_url jobData (num_or (cj_priority jobData) 5) \<noteq> [] \<Longrightarrow>
   createJob valid_url new_id now jobData db
   = Inl (ValidationError
       ((case cast_ObjectId new_id of None \<Rightarrow> [''_id''] | Some oid \<Rightarrow> []) @
        validation_errors valid_url jobData (num_or (cj_priority jobData) 5)))"
  by (auto simp add: createJob_def Let_def split: option.splits)

lemma createJob_nanoid:
  "nanoid_value new_id \<Longrightarrow>
   createJob valid_url new_id now jobData db
   = Inl (ValidationError
       (''_id'' # validation_errors valid_url jobData (num_or (cj_priority jobData) 5)))"
  using createJob_refused [of new_id valid_url jobData now db]
  by (simp add: nanoid_does_not_cast)

lemma sample_base_job_valid: "validation_errors (env_valid_url sample_env) sample_base_job 5 = []"
  by (simp add: validation_errors_def sample_env_def sample_base_job_def js_trim_def is_blank_def)

text \<open>
  C9, as stated, at a concrete input: a job created with priority 11 is not stored with
  priority 10; its creation is refused, with the priority among the paths that fail. With
  an id as \<^verbatim>\<open>nanoid()\<close> returns it the paths that fail are \<^verbatim>\<open>_id\<close> and the priority; with
  an id that casts, the priority alone.
\<close>

theorem C9_counterexample:
  "nanoid_value ''V1StGXR8_Z5jdHi6B-myT'' \<and>
   createJob (env_valid_url sample_env) ''V1StGXR8_Z5jdHi6B-myT'' 1000
     (sample_base_job\<lparr>cj_priority := Some 11\<rparr>) empty_store
   = Inl (ValidationError [''_id'', ''priority'']) \<and>
   createJob (env_valid_url sample_env) ''507f1f77bcf86cd799439011'' 1000
     (sample_base_job\<lparr>cj_priority := Some 11\<rparr>) empty_store
   = Inl (ValidationError [''priority''])"
  by (simp add: createJob_def Let_def num_or_def nanoid_value_def cast_ObjectId_def
      is_hex_def hex_lower_def validation_errors_def sample_env_def sample_base_job_def
      js_trim_def is_blank_def)

text \<open>
  C9 (amended): no priority is clamped. For every job-creation input, an integer priority
  p with p < 0 or p > 10 makes the creation fail with a validation error that names the
  priority, and no job is created; and whenever a creation with a priority p other than
  0 succeeds, p is between 1 and 10 and is the priority of the job, in the document
  returned and in the stored one.
\<close>

theorem C9_priority_validated:
  "(p < 0 \<or> 10 < p \<longrightarrow>
      (\<exists>paths. createJob valid_url new_id now (jobData\<lparr>cj_priority := Some p\<rparr>) db
                 = Inl (ValidationError paths) \<and> ''priority'' \<in> set paths)) \<and>
   (p \<noteq> 0 \<and> createJob valid_url new_id now (jobData\<lparr>cj_priority := Some p\<rparr>) db = Inr (j, db') \<longrightarrow>
      1 \<le> p \<and> p \<le> 10 \<and> priority j = p \<and>
      map_option priority (jobs db' (job_id j)) = Some p)"
proof -
  have out: "\<exists>paths. createJob valid_url new_id now (jobData\<lparr>cj_priority := Some p\<rparr>) db
                 = Inl (ValidationError paths) \<and> ''priority'' \<in> set paths"
    if r: "p < 0 \<or> 10 < p"
  proof -
    from r have n: "num_or (cj_priority (jobData\<lparr>cj_priority := Some p\<rparr>)) 5 = p"
      by (auto simp add: num_or_def)
    have m: "''priority'' \<in> set (validation_errors valid_url jobData p)"
      using r by (auto simp add: priority_in_validation_errors)
    then have "validation_errors valid_url (jobData\<lparr>cj_priority := Some p\<rparr>)
                 (num_or (cj_priority (jobData\<lparr>cj_priority := Some p\<rparr>)) 5) \<noteq> []"
      using n by auto
    from createJob_refused [OF disjI2, OF this, of new_id now db] n m
    show ?thesis by auto
  qed
  have inr: "1 \<le> p \<and> p \<le> 10 \<and> priority j = p \<and>
             map_option priority (jobs db' (job_id j)) = Some p"
    if a: "p \<noteq> 0 \<and> createJob valid_url new_id now (jobData\<lparr>cj_priority := Some p\<rparr>) db = Inr (j, db')"
  proof -
    from a have n: "num_or (cj_priority (jobData\<lparr>cj_priority := Some p\<rparr>)) 5 = p"
      by (simp add: num_or_def)
    from createJob_Inr_cases [of valid_url new_id now "jobData\<lparr>cj_priority := Some p\<rparr>" db j db'] a n
    obtain oid where c: "cast_ObjectId new_id = Some oid"
      and v: "validation_errors valid_url jobData p = []"
      and f: "jobs db oid = None"
      by auto
    have "''priority'' \<notin> set (validation_errors valid_url jobData p)"
      using v by simp
    then have range: "1 \<le> p \<and> p \<le> 10"
      by (auto simp add: priority_in_validation_errors)
    have v': "validation_errors valid_url (jobData\<lparr>cj_priority := Some p\<rparr>)
                (num_or (cj_priority (jobData\<lparr>cj_priority := Some p\<rparr>)) 5) = []"
      using v n by simp
    from createJob_ok [OF c v' f, of now] a n
    have "priority j = p \<and> map_option priority (jobs db' (job_id j)) = Some p"
      by auto
    with range show ?thesis by simp
  qed
  from out inr show ?thesis by blast
qed

theorem C9_priority_validated_witness:
  "(\<exists>paths. createJob (env_valid_url sample_env) ''V1StGXR8_Z5jdHi6B-myT'' 1000
               (sample_base_job\<lparr>cj_priority := Some (- 3)\<rparr>) empty_store
             = Inl (ValidationError paths) \<and> ''priority'' \<in> set paths) \<and>
   (\<exists>j db'. createJob (env_valid_url sample_env) ''507f1f77bcf86cd799439011'' 1000
               (sample_base_job\<lparr>cj_priority := Some 10\<rparr>) empty_store = Inr (j, db') \<and>
            priority j = 10 \<and> map_option priority (jobs db' (job_id j)) = Some 10)"
proof -
  have f: "jobs empty_store ''507f1f77bcf86cd799439011'' = None"
    by (simp add: empty_store_def)
  have v: "validation_errors (env_valid_url sample_env) (sample_base_job\<lparr>cj_priority := Some 10\<rparr>)
             (num_or (cj_priority (sample_base_job\<lparr>cj_priority := Some 10\<rparr>)) 5) = []"
    using sample_base_job_valid by (simp add: num_or_def validation_errors_def)
  from createJob_ok [OF sample_id_casts v f, of 1000]
  obtain j db' where c: "createJob (env_valid_url sample_env) ''507f1f77bcf86cd799439011'' 1000
               (sample_base_job\<lparr>cj_priority := Some 10\<rparr>) empty_store = Inr (j, db')"
    by blast
  have "priority j = 10 \<and> map_option priority (jobs db' (job_id j)) = Some 10"
    using C9_priority_validated [of 10 "env_valid_url sample_env" "''507f1f77bcf86cd799439011''"
        1000 sample_base_job empty_store j db'] c
    by simp
  with c have b: "\<exists>j db'. createJob (env_valid_url sample_env) ''507f1f77bcf86cd799439011'' 1000
               (sample_base_job\<lparr>cj_priority := Some 10\<rparr>) empty_store = Inr (j, db') \<and>
            priority j = 10 \<and> map_option priority (jobs db' (job_id j)) = Some 10"
    by blast
  have a: "\<exists>paths. createJob (env_valid_url sample_env) ''V1StGXR8_Z5jdHi6B-myT'' 1000
               (sample_base_job\<lparr>cj_priority := Some (- 3)\<rparr>) empty_store
             = Inl (ValidationError paths) \<and> ''priority'' \<in> set paths"
    using C9_priority_validated [of "- 3" "env_valid_url sample_env" "''V1StGXR8_Z5jdHi6B-myT''"
        1000 sample_base_job empty_store]
    by simp
  from a b show ?thesis by blast
qed

section \<open>Batch creation\<close>

lemma cj_type_batch_jobData: "cj_type (batch_jobData env bd names urls i) = Some Scheduled"
  by (simp add: batch_jobData_def Let_def split: option.splits prod.splits)

lemma createJob_scheduled_step:
  assumes c: "createJob valid_url new_id now jobData db = Inr (j, db')"
    and t: "cj_type jobData = Some Scheduled"
    and inv: "list_all (scheduled_pending db) created"
  shows "list_all (scheduled_pending db') (created @ [j])"
proof -
  from createJob_Inr_cases [OF c]
  obtain oid where o: "cast_ObjectId new_id = Some oid"
    and v: "validation_errors valid_url jobData (num_or (cj_priority jobData) 5) = []"
    and fresh: "jobs db oid = None" by auto
  from createJob_ok [OF o v fresh, of now] c t
  obtain stored where db': "db' = db\<lparr>jobs := (jobs db)(oid \<mapsto> stored)\<rparr>"
    and j: "job_id j = oid" "jstatus j = Pending" "jtype j = Scheduled"
    and st: "jtype stored = Scheduled" "jstatus stored = Pending"
    by auto
  have new: "scheduled_pending db' j"
    using db' j st by (simp add: scheduled_pending_def)
  have old: "scheduled_pending db' x" if "scheduled_pending db x" for x
  proof -
    from that fresh have "job_id x \<noteq> oid"
      by (auto simp add: scheduled_pending_def)
    with that db' show ?thesis by (simp add: scheduled_pending_def)
  qed
  from inv old have "list_all (scheduled_pending db') created"
    by (simp add: list_all_iff)
  with new show ?thesis by simp
qed

lemma batch_loop_scheduled:
  "list_all (scheduled_pending db) created \<Longrightarrow>
   batch_loop env bd names urls todo (created, errors, db) = (created', errors', db') \<Longrightarrow>
   list_all (scheduled_pending db') created'"
proof (induction todo arbitrary: created errors db)
  case Nil
  then show ?case by simp
next
  case (Cons i rest)
  show ?case
  proof (cases "createJob (env_valid_url env) (env_ids env i) (env_clock env i)
                  (batch_jobData env bd names urls i) db")
    case (Inl e)
    with Cons.prems(2) Cons.IH [OF Cons.prems(1)] show ?thesis by simp
  next
    case (Inr r)
    obtain j db1 where r: "r = (j, db1)" by (cases r)
    have "list_all (scheduled_pending db1) (created @ [j])"
      using createJob_scheduled_step [OF _ cj_type_batch_jobData Cons.prems(1)] Inr r by simp
    from Cons.IH [OF this] Cons.prems(2) Inr r show ?thesis by simp
  qed
qed

text \<open>
  A creation changes the store at the new id only, and the loop keeps every document that
  is stored already and stores scheduled, pending documents only.
\<close>

lemma createJob_store:
  assumes "createJob valid_url new_id now jobData db = Inr (j, db')"
    and "cj_type jobData = Some Scheduled"
  shows "\<exists>oid stored. jobs db oid = None \<and> jobs db' = (jobs db)(oid \<mapsto> stored) \<and>
                       jtype stored = Scheduled \<and> jstatus stored = Pending"
proof -
  from createJob_Inr_cases [OF assms(1)]
  obtain oid where o: "cast_ObjectId new_id = Some oid"
    and v: "validation_errors valid_url jobData (num_or (cj_priority jobData) 5) = []"
    and fresh: "jobs db oid = None" by auto
  from createJob_ok [OF o v fresh, of now] assms
  obtain stored where "jobs db' = (jobs db)(oid \<mapsto> stored)"
    "jtype stored = Scheduled" "jstatus stored = Pending"
    by auto
  with fresh show ?thesis by blast
qed

lemma batch_loop_keeps:
  "batch_loop env bd names urls todo (created, errors, db) = (created', errors', db') \<Longrightarrow>
   jobs db k = Some x \<Longrightarrow> jobs db' k = Some x"
proof (induction todo arbitrary: created errors db)
  case Nil
  then show ?case by simp
next
  case (Cons i rest)
  show ?case
  proof (cases "createJob (env_valid_url env) (env_ids env i) (env_clock env i)
                  (batch_jobData env bd names urls i) db")
    case (Inl e)
    with Cons.prems Cons.IH show ?thesis by simp
  next
    case (Inr r)
    obtain j db1 where r: "r = (j, db1)" by (cases r)
    have "createJob (env_valid_url env) (env_ids env i) (env_clock env i)
            (batch_jobData env bd names urls i) db = Inr (j, db1)"
      using Inr r by simp
    from createJob_store [OF this cj_type_batch_jobData]
    obtain oid stored where "jobs db oid = None" "jobs db1 = (jobs db)(oid \<mapsto> stored)"
      by blast
    with Cons.prems(2) have "jobs db1 k = Some x" by auto
    with Cons.IH [of "created @ [j]" errors db1] Cons.prems(1) Inr r show ?thesis by simp
  qed
qed

lemma batch_loop_new_documents:
  "batch_loop env bd names urls todo (created, errors, db) = (created', errors', db') \<Longrightarrow>
   jobs db k = None \<Longrightarrow> jobs db' k = Some x \<Longrightarrow> jtype x = Scheduled \<and> jstatus x = Pending"
proof (induction todo arbitrary: created errors db)
  case Nil
  then show ?case by simp
next
  case (Cons i rest)
  show ?case
  proof (cases "createJob (env_valid_url env) (env_ids env i) (env_clock env i)
                  (batch_jobData env bd names urls i) db")
    case (Inl e)
    with Cons.prems Cons.IH show ?thesis by simp
  next
    case (Inr r)
    obtain j db1 where r: "r = (j, db1)" by (cases r)
    have "createJob (env_valid_url env) (env_ids env i) (env_clock env i)
            (batch_jobData env bd names urls i) db = Inr (j, db1)"
      using Inr r by simp
    from createJob_store [OF this cj_type_batch_jobData]
    obtain oid stored where db1: "jobs db1 = (jobs db)(oid \<mapsto> stored)"
      and st: "jtype stored = Scheduled" "jstatus stored = Pending"
      by blast
    have rest: "batch_loop env bd names urls rest (created @ [j], errors, db1)
                = (created', errors', db')"
      using Cons.prems(1) Inr r by simp
    show ?thesis
    proof (cases "k = oid")
      case True
      with db1 have "jobs db1 k = Some stored" by simp
      from batch_loop_keeps [OF rest this] Cons.prems(3) st show ?thesis by simp
    next
      case False
      with db1 Cons.prems(2) have "jobs db1 k = None" by simp
      from Cons.IH [OF rest this Cons.prems(3)] show ?thesis .
    qed
  qed
qed

text \<open>Every index of the loop gives one created job or one error message.\<close>

lemma batch_loop_count:
  "batch_loop env bd names urls todo (created, errors, db) = (created', errors', db') \<Longrightarrow>
   length created' + length errors' = length created + length errors + length todo"
proof (induction todo arbitrary: created errors db)
  case Nil
  then show ?case by simp
next
  case (Cons i rest)
  show ?case
  proof (cases "createJob (env_valid_url env) (env_ids env i) (env_clock env i)
                  (batch_jobData env bd names urls i) db")
    case (Inl e)
    with Cons.prems Cons.IH [of created _ db] show ?thesis by simp
  next
    case (Inr r)
    obtain j db1 where r: "r = (j, db1)" by (cases r)
    with Cons.prems Cons.IH [of "created @ [j]" errors db1] Inr show ?thesis by simp
  qed
qed

text \<open>
  With the ids that \<^verbatim>\<open>nanoid()\<close> returns no creation of the loop succeeds: the batch
  creates no job and reports one error for each index.
\<close>

lemma batch_loop_nanoid:
  "(\<And>i. nanoid_value (env_ids env i)) \<Longrightarrow>
   batch_loop env bd names urls todo (created, errors, db) = (created', errors', db') \<Longrightarrow>
   created' = created \<and> db' = db"
proof (induction todo arbitrary: errors)
  case Nil
  then show ?case by simp
next
  case (Cons i rest)
  from createJob_nanoid [OF Cons.prems(1) [of i]] Cons.prems(2) Cons.IH [OF Cons.prems(1)]
  show ?case by simp
qed

lemma createBatchJobs_nanoid:
  assumes "\<And>i. nanoid_value (env_ids env i)"
  shows "br_jobs (fst (createBatchJobs env bd db)) = [] \<and>
         br_totalCreated (fst (createBatchJobs env bd db)) = 0 \<and>
         length (br_errors (fst (createBatchJobs env bd db))) = nat (bd_quantity bd) \<and>
         snd (createBatchJobs env bd db) = db"
proof -
  obtain created errors db1 where
    l: "batch_loop env bd
          (generateNames (bd_quantity bd) (bd_namePattern bd) (cj_name (bd_baseJob bd)))
          (generateUrls (bd_quantity bd) (bd_urlPattern bd) (cj_url (bd_baseJob bd)))
          [0..<nat (bd_quantity bd)] ([], [], db) = (created, errors, db1)"
    by (metis prod_cases3)
  from batch_loop_nanoid [OF assms l] have c: "created = []" "db1 = db" by simp_all
  from batch_loop_count [OF l] c have "length errors = nat (bd_quantity bd)" by simp
  with c l show ?thesis by (simp add: createBatchJobs_def Let_def)
qed

text \<open>
  C10: every job that createBatchJobs returns has the type scheduled, whatever type the
  base job declares, and is pending, in the document returned and in the stored one; and
  every document that the call adds to the store is scheduled and pending: no job of a
  batch has been queued at its creation. The jobs returned and the errors reported are as
  many as the quantity.
\<close>

theorem C10_batch_jobs_scheduled:
  assumes "createBatchJobs env bd db = (res, db')"
  shows "list_all (scheduled_pending db') (br_jobs res) \<and>
         (jobs db k = None \<and> jobs db' k = Some x \<longrightarrow> jtype x = Scheduled \<and> jstatus x = Pending) \<and>
         length (br_jobs res) + length (br_errors res) = nat (bd_quantity bd)"
proof -
  obtain created errors db1 where
    l: "batch_loop env bd
          (generateNames (bd_quantity bd) (bd_namePattern bd) (cj_name (bd_baseJob bd)))
          (generateUrls (bd_quantity bd) (bd_urlPattern bd) (cj_url (bd_baseJob bd)))
          [0..<nat (bd_quantity bd)] ([], [], db) = (created, errors, db1)"
    by (metis prod_cases3)
  have a: "list_all (scheduled_pending db1) created"
    using batch_loop_scheduled [OF _ l] by simp
  have e: "br_jobs res = created" "br_errors res = errors" "db' = db1"
    using assms l by (auto simp add: createBatchJobs_def Let_def)
  have n: "jobs db k = None \<and> jobs db1 k = Some x \<longrightarrow> jtype x = Scheduled \<and> jstatus x = Pending"
    using batch_loop_new_documents [OF l] by blast
  have "length created + length errors = nat (bd_quantity bd)"
    using batch_loop_count [OF l] by simp
  with a e n show ?thesis by simp
qed

text \<open>
  The witness: a batch of two on a base job that declares the type single. With ids that
  cast to ObjectId both jobs are created, scheduled and pending; with ids as \<^verbatim>\<open>nanoid()\<close>
  returns them no job is created and two errors are reported.
\<close>

lemma sample_batch_created:
  "map (\<lambda>j. (job_id j, jname j, url j, jtype j, jstatus j, priority j))
     (br_jobs (fst (createBatchJobs sample_env sample_batch empty_store)))
   = [(''507f1f77bcf86cd799439010'', ''Monitor 1'', ''https://x.com?page=1'', Scheduled, Pending, 7),
      (''507f1f77bcf86cd799439011'', ''Monitor 2'', ''https://x.com?page=2'', Scheduled, Pending, 7)]"
  by (simp add: createBatchJobs_def sample_env_def sample_batch_def sample_base_job_def
      empty_store_def generateUrls_def generateNames_def upt_rec batch_jobData_def
      createJob_def sample_id_casts sample_id0_casts
      validation_errors_def num_or_def getVariation_def template_str_def
      js_toString_def digits_of_nat.simps digit_char_def js_trim_def is_blank_def addLog_def
      Let_def)

theorem C10_batch_jobs_scheduled_witness:
  "cj_type (bd_baseJob sample_batch) = Some Single \<and>
   length (br_jobs (fst (createBatchJobs sample_env sample_batch empty_store))) = 2 \<and>
   list_all (scheduled_pending (snd (createBatchJobs sample_env sample_batch empty_store)))
     (br_jobs (fst (createBatchJobs sample_env sample_batch empty_store))) \<and>
   jobs empty_store ''507f1f77bcf86cd799439010'' = None \<and>
   map_option jtype
     (jobs (snd (createBatchJobs sample_env sample_batch empty_store)) ''507f1f77bcf86cd799439010'')
     = Some Scheduled \<and>
   map_option jstatus
     (jobs (snd (createBatchJobs sample_env sample_batch empty_store)) ''507f1f77bcf86cd799439010'')
     = Some Pending \<and>
   br_jobs (fst (createBatchJobs sample_nanoid_env sample_batch empty_store)) = [] \<and>
   length (br_errors (fst (createBatchJobs sample_nanoid_env sample_batch empty_store))) = 2"
proof -
  have "length (map (\<lambda>j. (job_id j, jname j, url j, jtype j, jstatus j, priority j))
          (br_jobs (fst (createBatchJobs sample_env sample_batch empty_store)))) = 2"
    by (simp only: sample_batch_created) simp
  then have n: "length (br_jobs (fst (createBatchJobs sample_env sample_batch empty_store))) = 2"
    by simp
  have t: "cj_type (bd_baseJob sample_batch) = Some Single"
    by (simp add: sample_batch_def sample_base_job_def)
  let ?r = "createBatchJobs sample_env sample_batch empty_store"
  have c: "list_all (scheduled_pending (snd ?r)) (br_jobs (fst ?r))"
    using C10_batch_jobs_scheduled [of sample_env sample_batch empty_store "fst ?r" "snd ?r"]
    by simp
  have "job_id (hd (br_jobs (fst ?r))) = ''507f1f77bcf86cd799439010''"
    using sample_batch_created by (cases "br_jobs (fst ?r)") auto
  moreover have "scheduled_pending (snd ?r) (hd (br_jobs (fst ?r)))"
    using c n by (cases "br_jobs (fst ?r)") auto
  ultimately obtain x where x: "jobs (snd ?r) ''507f1f77bcf86cd799439010'' = Some x"
    by (auto simp add: scheduled_pending_def)
  have f: "jobs empty_store ''507f1f77bcf86cd799439010'' = None"
    by (simp add: empty_store_def)
  have "jtype x = Scheduled \<and> jstatus x = Pending"
    using C10_batch_jobs_scheduled [of sample_env sample_batch empty_store "fst ?r" "snd ?r"
        "''507f1f77bcf86cd799439010''" x] f x
    by simp
  then have castable: "map_option jtype (jobs (snd ?r) ''507f1f77bcf86cd799439010'') = Some Scheduled \<and>
      map_option jstatus (jobs (snd ?r) ''507f1f77bcf86cd799439010'') = Some Pending"
    using x by simp
  let ?q = "createBatchJobs sample_nanoid_env sample_batch empty_store"
  have "nanoid_value (env_ids sample_nanoid_env i)" for i
    by (simp add: sample_nanoid_env_def nanoid_value_def)
  from createBatchJobs_nanoid [OF this, of sample_batch empty_store]
  have none: "br_jobs (fst ?q) = []" by simp
  have "length (br_jobs (fst ?q)) + length (br_errors (fst ?q)) = nat (bd_quantity sample_batch)"
    using C10_batch_jobs_scheduled [of sample_nanoid_env sample_batch empty_store "fst ?q" "snd ?q"]
    by simp
  with none have errs: "length (br_errors (fst ?q)) = 2"
    by (simp add: sample_batch_def)
  from n t c f castable none errs show ?thesis by simp
qed

section \<open>Heartbeat of an unknown worker\<close>

text \<open>
  C5, as stated, at a concrete input: the registry is empty, so the id identifies no
  registered worker; the heartbeat is answered 200 with success, and the registry holds an
  entry for the id afterwards.
\<close>

theorem C5_counterexample:
  "map_of ([] :: registry) ''ghost'' = None \<and>
   resp_code (fst (heartbeat_POST 1000 ''ghost'' (Some sample_heartbeat) [])) = 200 \<and>
   resp_success (fst (heartbeat_POST 1000 ''ghost'' (Some sample_heartbeat) [])) \<and>
   map_option re_currentJobs
     (map_of (snd (heartbeat_POST 1000 ''ghost'' (Some sample_heartbeat) [])) ''ghost'') = Some 1"
  by (simp add: heartbeat_POST_def Let_def sample_heartbeat_def)

text \<open>
  C5 (amended): for every heartbeat with a readable body, whether or not its workerId
  identifies a worker of the registry, the operation succeeds (200, success) and the
  registry afterwards holds, under that id, the entry made of the id, the reported status,
  job count, metrics and performance, the counts of completed and failed jobs taken from
  the metrics, the current time as the time last seen and as the time of the metrics, and
  the reported capabilities (those of the entry before, if there is one, when the
  heartbeat reports none); the entries of the other ids are as before. There is no error
  outcome for an unknown id: its heartbeat registers it.
\<close>

theorem C5_heartbeat_registers:
  "resp_code (fst (heartbeat_POST now workerId (Some hb) reg)) = 200 \<and>
   resp_success (fst (heartbeat_POST now workerId (Some hb) reg)) \<and>
   map_of (snd (heartbeat_POST now workerId (Some hb) reg)) workerId
     = Some \<lparr>re_id = workerId,
             re_status = hb_status hb,
             re_lastSeen = now,
             re_currentJobs = hb_currentJobs hb,
             re_metrics = hb_metrics hb,
             re_metrics_lastUpdated = now,
             re_performance = hb_performance hb,
             re_totalJobsProcessed = jobsCompleted (hb_metrics hb),
             re_totalJobsFailed = jobsFailed (hb_metrics hb),
             re_capabilities =
               (case hb_capabilities hb of
                  Some c \<Rightarrow> Some c
                | None \<Rightarrow> (case map_of reg workerId of
                             None \<Rightarrow> None
                           | Some e \<Rightarrow> re_capabilities e))\<rparr> \<and>
   (other = workerId \<or>
    map_of (snd (heartbeat_POST now workerId (Some hb) reg)) other = map_of reg other)"
  by (simp add: heartbeat_POST_def Let_def update_conv')

theorem C5_heartbeat_registers_witness:
  "map_of ([] :: registry) ''wn-000001'' = None \<and>
   resp_code (fst (heartbeat_POST 1000 ''wn-000001'' (Some sample_heartbeat) [])) = 200 \<and>
   map_option re_status
     (map_of (snd (heartbeat_POST 1000 ''wn-000001'' (Some sample_heartbeat) [])) ''wn-000001'')
     = Some Reported_online \<and>
   map_option (cpuUsage \<circ> re_metrics)
     (map_of (snd (heartbeat_POST 1000 ''wn-000001'' (Some sample_heartbeat) [])) ''wn-000001'')
     = Some 20 \<and>
   map_option (perf_successRate \<circ> re_performance)
     (map_of (snd (heartbeat_POST 1000 ''wn-000001'' (Some sample_heartbeat) [])) ''wn-000001'')
     = Some 100"
  using C5_heartbeat_registers [of 1000 "''wn-000001''" sample_heartbeat "[]" "''wn-000001''"]
  by (simp add: sample_heartbeat_def)

end
